theory Spec2Isabelle
  imports Main "HOL-Library.Word"
begin

section \<open>Callbacks, the sink and the record of callback invocations\<close>

text \<open>
  The two shims forward the output of LLVM's emitters to callbacks supplied by the Rust
  side. A callback receives a buffer (\<open>Ptr\<close> and \<open>Size\<close>), the opaque \<open>user\<close> pointer,
  and returns an \<open>int\<close> status, 0 for success. The type \<open>'p\<close> stands for the buffer a
  \<open>const uint8_t*\<close> designates, \<open>'u\<close> for the state of the object behind \<open>void* user\<close>,
  which only the callbacks read and change. \<open>size_t\<close> and \<open>uint64_t\<close> are 64-bit words,
  \<open>int\<close> is a 32-bit word. A null function pointer is \<open>None\<close>.
\<close>

type_synonym size_t = "64 word"
type_synonym uint64_t = "64 word"
type_synonym c_int = "32 word"

type_synonym ('p, 'u) rust_write_cb = "'p \<Rightarrow> size_t \<Rightarrow> 'u \<Rightarrow> c_int \<times> 'u"
type_synonym ('p, 'u) rust_pwrite_cb = "'p \<Rightarrow> size_t \<Rightarrow> uint64_t \<Rightarrow> 'u \<Rightarrow> c_int \<times> 'u"
type_synonym 'u rust_seek_cb = "uint64_t \<Rightarrow> 'u \<Rightarrow> c_int \<times> 'u"
type_synonym 'u rust_flush_cb = "'u \<Rightarrow> c_int \<times> 'u"

text \<open>
  To state how often and in which order callbacks run, every invocation is logged with
  its arguments and the status it returned. The log is not a variable of the program; it
  is the observation the properties below speak about.
\<close>

datatype 'p callback_call =
    WriteCall 'p size_t
  | PwriteCall 'p size_t uint64_t
  | SeekCall uint64_t
  | FlushCall

type_synonym 'p event = "'p callback_call \<times> c_int"

record ('p, 'u) sink =
  user :: 'u
  calls :: "'p event list"

definition invoke ::
  "'p callback_call \<Rightarrow> ('u \<Rightarrow> c_int \<times> 'u) \<Rightarrow> ('p, 'u) sink \<Rightarrow> c_int \<times> ('p, 'u) sink" where
  "invoke c f w =
     (case f (user w) of
        (rc, u') \<Rightarrow> (rc, \<lparr>user = u', calls = calls w @ [(c, rc)]\<rparr>))"

definition is_flush :: "'p event \<Rightarrow> bool" where
  "is_flush e = (case fst e of FlushCall \<Rightarrow> True | _ \<Rightarrow> False)"

definition failed :: "'p event \<Rightarrow> bool" where
  "failed e = (snd e \<noteq> 0)"

section \<open>RustPwriteStream (pwrite\_stream\_shim.cpp)\<close>

record ('p, 'u) RustPwriteStream =
  write_cb_p :: "('p, 'u) rust_write_cb option"
  pwrite_cb_p :: "('p, 'u) rust_pwrite_cb option"
  seek_cb_p :: "'u rust_seek_cb option"
  flush_cb_p :: "'u rust_flush_cb option"
  pos_p :: uint64_t
  had_error_p :: bool

text \<open>
  The members \<^verbatim>\<open>write_cb_\<close>, \<^verbatim>\<open>pos_\<close>, \<^verbatim>\<open>had_error_\<close> and so on are the fields
  \<open>write_cb_p\<close>, \<open>pos_p\<close>, \<open>had_error_p\<close> (a name cannot end in an underscore here).
  \<^verbatim>\<open>user_\<close> is the \<open>user\<close> component of the sink. The constructor stores the callbacks
  as given and starts with position 0 and no error.
\<close>

definition RustPwriteStream ::
  "('p, 'u) rust_write_cb option \<Rightarrow> ('p, 'u) rust_pwrite_cb option \<Rightarrow>
   'u rust_seek_cb option \<Rightarrow> 'u rust_flush_cb option \<Rightarrow> ('p, 'u) RustPwriteStream" where
  "RustPwriteStream wcb pwcb scb fcb =
     \<lparr>write_cb_p = wcb, pwrite_cb_p = pwcb, seek_cb_p = scb, flush_cb_p = fcb,
      pos_p = 0, had_error_p = False\<rparr>"

text \<open>The destructor \<open>~RustPwriteStream\<close>.\<close>

definition RustPwriteStream_dtor ::
  "('p, 'u) RustPwriteStream \<Rightarrow> ('p, 'u) sink \<Rightarrow> ('p, 'u) RustPwriteStream \<times> ('p, 'u) sink" where
  "RustPwriteStream_dtor s w =
     (if \<not> had_error_p s then
        (case flush_cb_p s of
           Some fcb \<Rightarrow>
             (case invoke FlushCall fcb w of
                (rc, w') \<Rightarrow> if rc \<noteq> 0 then (s\<lparr>had_error_p := True\<rparr>, w') else (s, w'))
         | None \<Rightarrow> (s, w))
      else (s, w))"

definition seek_append_pos ::
  "uint64_t \<Rightarrow> ('p, 'u) RustPwriteStream \<Rightarrow> ('p, 'u) sink \<Rightarrow>
   bool \<times> ('p, 'u) RustPwriteStream \<times> ('p, 'u) sink" where
  "seek_append_pos new_pos s w =
     (let s' = s\<lparr>pos_p := new_pos\<rparr> in
      case seek_cb_p s' of
        Some scb \<Rightarrow> (case invoke (SeekCall new_pos) (scb new_pos) w of (rc, w') \<Rightarrow> (rc = 0, s', w'))
      | None \<Rightarrow> (True, s', w))"

definition had_error :: "('p, 'u) RustPwriteStream \<Rightarrow> bool" where
  "had_error s = had_error_p s"

definition write_impl ::
  "'p \<Rightarrow> size_t \<Rightarrow> ('p, 'u) RustPwriteStream \<Rightarrow> ('p, 'u) sink \<Rightarrow>
   ('p, 'u) RustPwriteStream \<times> ('p, 'u) sink" where
  "write_impl Ptr Size s w =
     (if had_error_p s \<or> Size = 0 then (s, w)
      else case write_cb_p s of
        None \<Rightarrow> (s\<lparr>had_error_p := True\<rparr>, w)
      | Some wcb \<Rightarrow>
          (case invoke (WriteCall Ptr Size) (wcb Ptr Size) w of
             (rc, w') \<Rightarrow>
               if rc \<noteq> 0 then (s\<lparr>had_error_p := True\<rparr>, w')
               else (s\<lparr>pos_p := pos_p s + Size\<rparr>, w')))"

definition pwrite_impl ::
  "'p \<Rightarrow> size_t \<Rightarrow> uint64_t \<Rightarrow> ('p, 'u) RustPwriteStream \<Rightarrow> ('p, 'u) sink \<Rightarrow>
   ('p, 'u) RustPwriteStream \<times> ('p, 'u) sink" where
  "pwrite_impl Ptr Size Offset s w =
     (if had_error_p s \<or> Size = 0 then (s, w)
      else case pwrite_cb_p s of
        None \<Rightarrow> (s\<lparr>had_error_p := True\<rparr>, w)
      | Some pwcb \<Rightarrow>
          (case invoke (PwriteCall Ptr Size Offset) (pwcb Ptr Size Offset) w of
             (rc, w') \<Rightarrow>
               if rc \<noteq> 0 then (s\<lparr>had_error_p := True\<rparr>, w') else (s, w')))"

definition current_pos :: "('p, 'u) RustPwriteStream \<Rightarrow> uint64_t" where
  "current_pos s = pos_p s"

section \<open>RustRawOStream (bitcode\_ir\_stream\_shim.cpp)\<close>

record ('p, 'u) RustRawOStream =
  write_cb_o :: "('p, 'u) rust_write_cb option"
  flush_cb_o :: "'u rust_flush_cb option"
  pos_o :: uint64_t
  had_error_o :: bool

definition RustRawOStream ::
  "('p, 'u) rust_write_cb option \<Rightarrow> 'u rust_flush_cb option \<Rightarrow> ('p, 'u) RustRawOStream" where
  "RustRawOStream write_cb flush_cb =
     \<lparr>write_cb_o = write_cb, flush_cb_o = flush_cb, pos_o = 0, had_error_o = False\<rparr>"

text \<open>
  \<open>raw_ostream::flush\<close> belongs to LLVM: it hands the bytes of the stream's own buffer to
  \<open>write_impl\<close>. Both constructors call \<open>SetUnbuffered()\<close>, so that buffer is always
  empty and the call forwards nothing; it never calls the flush callback.
\<close>

definition raw_ostream_flush :: "'s \<Rightarrow> ('p, 'u) sink \<Rightarrow> 's \<times> ('p, 'u) sink" where
  "raw_ostream_flush s w = (s, w)"

definition RustRawOStream_dtor ::
  "('p, 'u) RustRawOStream \<Rightarrow> ('p, 'u) sink \<Rightarrow> ('p, 'u) RustRawOStream \<times> ('p, 'u) sink" where
  "RustRawOStream_dtor s0 w0 =
     (case raw_ostream_flush s0 w0 of
        (s, w) \<Rightarrow>
          if \<not> had_error_o s then
            (case flush_cb_o s of
               Some fcb \<Rightarrow>
                 (case invoke FlushCall fcb w of
                    (rc, w') \<Rightarrow> if rc \<noteq> 0 then (s\<lparr>had_error_o := True\<rparr>, w') else (s, w'))
             | None \<Rightarrow> (s, w))
          else (s, w))"

definition o_had_error :: "('p, 'u) RustRawOStream \<Rightarrow> bool" where
  "o_had_error s = had_error_o s"

definition o_write_impl ::
  "'p \<Rightarrow> size_t \<Rightarrow> ('p, 'u) RustRawOStream \<Rightarrow> ('p, 'u) sink \<Rightarrow>
   ('p, 'u) RustRawOStream \<times> ('p, 'u) sink" where
  "o_write_impl Ptr Size s w =
     (if had_error_o s \<or> Size = 0 then (s, w)
      else case write_cb_o s of
        None \<Rightarrow> (s\<lparr>had_error_o := True\<rparr>, w)
      | Some wcb \<Rightarrow>
          (case invoke (WriteCall Ptr Size) (wcb Ptr Size) w of
             (rc, w') \<Rightarrow>
               if rc \<noteq> 0 then (s\<lparr>had_error_o := True\<rparr>, w')
               else (s\<lparr>pos_o := pos_o s + Size\<rparr>, w')))"

definition o_current_pos :: "('p, 'u) RustRawOStream \<Rightarrow> uint64_t" where
  "o_current_pos s = pos_o s"

section \<open>The emitters as clients of the streams\<close>

text \<open>
  LLVM's emitters (\<open>WriteBitcodeToFile\<close>, \<open>Module::print\<close>, the passes added by
  \<open>addPassesToEmitFile\<close>) are not part of the shims. They see the stream through the
  interface of \<open>raw_ostream\<close> or \<open>raw_pwrite_stream\<close> only: on an unbuffered stream
  \<open>write\<close> is \<open>write_impl\<close>, \<open>pwrite\<close> is \<open>pwrite_impl\<close> and \<open>tell\<close> is
  \<open>current_pos\<close>. They can neither read the error flag nor call \<open>seek_append_pos\<close>,
  which the two base classes do not declare. An emitter is therefore any finite strategy
  that issues such calls, chooses each next call from the positions it has read, and
  returns a value.
\<close>

datatype ('p, 'r) ostream_client =
    OReturn 'r
  | OWrite 'p size_t "('p, 'r) ostream_client"
  | OTell "uint64_t \<Rightarrow> ('p, 'r) ostream_client"

datatype ('p, 'r) pwrite_client =
    Return 'r
  | Write 'p size_t "('p, 'r) pwrite_client"
  | Pwrite 'p size_t uint64_t "('p, 'r) pwrite_client"
  | Tell "uint64_t \<Rightarrow> ('p, 'r) pwrite_client"

primrec run_ostream_client ::
  "('p, 'r) ostream_client \<Rightarrow> ('p, 'u) RustRawOStream \<Rightarrow> ('p, 'u) sink \<Rightarrow>
   'r \<times> ('p, 'u) RustRawOStream \<times> ('p, 'u) sink" where
  "run_ostream_client (OReturn r) s w = (r, s, w)"
| "run_ostream_client (OWrite Ptr Size k) s w =
     (case o_write_impl Ptr Size s w of (s', w') \<Rightarrow> run_ostream_client k s' w')"
| "run_ostream_client (OTell k) s w = run_ostream_client (k (o_current_pos s)) s w"

primrec run_pwrite_client ::
  "('p, 'r) pwrite_client \<Rightarrow> ('p, 'u) RustPwriteStream \<Rightarrow> ('p, 'u) sink \<Rightarrow>
   'r \<times> ('p, 'u) RustPwriteStream \<times> ('p, 'u) sink" where
  "run_pwrite_client (Return r) s w = (r, s, w)"
| "run_pwrite_client (Write Ptr Size k) s w =
     (case write_impl Ptr Size s w of (s', w') \<Rightarrow> run_pwrite_client k s' w')"
| "run_pwrite_client (Pwrite Ptr Size Offset k) s w =
     (case pwrite_impl Ptr Size Offset s w of (s', w') \<Rightarrow> run_pwrite_client k s' w')"
| "run_pwrite_client (Tell k) s w = run_pwrite_client (k (current_pos s)) s w"

section \<open>Handles, modules and target machines\<close>

text \<open>
  A handle (\<open>LLVMModuleRef\<close>, \<open>LLVMTargetMachineRef\<close>) is \<open>None\<close> when null, otherwise
  \<open>unwrap\<close> gives the object. Of a module the shims touch the data layout; the rest is
  \<open>contents\<close>. Of a target machine they use \<open>createDataLayout\<close> and
  \<open>addPassesToEmitFile\<close>, which returns \<open>true\<close> when the file type cannot be emitted
  and otherwise has filled the pass manager; \<open>pass.run\<close> then is a client of the stream
  that may change the module.
\<close>

record 'c Module =
  DataLayout :: string
  contents :: 'c

definition setDataLayout :: "string \<Rightarrow> 'c Module \<Rightarrow> 'c Module" where
  "setDataLayout dl m = m\<lparr>DataLayout := dl\<rparr>"

datatype LLVMCodeGenFileType = LLVMAssemblyFile | LLVMObjectFile

datatype CodeGenFileType = AssemblyFile | ObjectFile

type_synonym ('p, 'c) PassManager = "'c Module \<Rightarrow> ('p, 'c Module) pwrite_client"

record ('p, 'c) TargetMachine =
  createDataLayout :: string
  addPassesToEmitFile :: "CodeGenFileType \<Rightarrow> ('p, bool \<times> ('p, 'c) PassManager) pwrite_client"

section \<open>Error messages\<close>

text \<open>
  A C string is \<open>None\<close> for \<open>nullptr\<close>. \<open>dup_cstr\<close> copies with \<open>malloc\<close>; whether
  the allocation succeeds is the parameter \<open>malloc_ok\<close>. The optional out-parameter
  \<open>char** error_message\<close> is \<open>None\<close> when the pointer is null, and otherwise holds
  what the caller's variable contains.
\<close>

type_synonym c_str = "string option"

definition dup_cstr :: "bool \<Rightarrow> c_str \<Rightarrow> c_str" where
  "dup_cstr malloc_ok s =
     (case s of None \<Rightarrow> None | Some str \<Rightarrow> if malloc_ok then Some str else None)"

definition assign_message :: "c_str option \<Rightarrow> c_str \<Rightarrow> c_str option" where
  "assign_message error_message v = (case error_message of None \<Rightarrow> None | Some old \<Rightarrow> Some v)"

section \<open>Entry point of pwrite\_stream\_shim.cpp\<close>

text \<open>
  The result holds the returned \<open>int\<close>, the caller's message variable, module and sink
  after the call, and the stream as its destructor left it (\<open>None\<close> when no stream was
  constructed). On every path after the construction the destructor runs when the
  function returns, that is after the return value has been computed.
\<close>

record ('p, 'u, 'c) emit_result =
  ret :: c_int
  message_after :: "c_str option"
  module_after :: "'c Module option"
  sink_after :: "('p, 'u) sink"
  stream_after :: "('p, 'u) RustPwriteStream option"

definition invalid_arguments ::
  "bool \<Rightarrow> 'c Module option \<Rightarrow> ('p, 'u) sink \<Rightarrow> c_str option \<Rightarrow> ('p, 'u, 'c) emit_result" where
  "invalid_arguments malloc_ok M w error_message =
     \<lparr>ret = 1,
      message_after = assign_message error_message
        (dup_cstr malloc_ok (Some ''invalid arguments: TM/Mod/write_cb/pwrite_cb must be non-null'')),
      module_after = M, sink_after = w, stream_after = None\<rparr>"

definition bpf_linker_emit_to_pwrite_stream ::
  "bool \<Rightarrow> ('p, 'c) TargetMachine option \<Rightarrow> 'c Module option \<Rightarrow> LLVMCodeGenFileType \<Rightarrow>
   ('p, 'u) rust_write_cb option \<Rightarrow> ('p, 'u) rust_pwrite_cb option \<Rightarrow>
   'u rust_seek_cb option \<Rightarrow> 'u rust_flush_cb option \<Rightarrow> ('p, 'u) sink \<Rightarrow> c_str option \<Rightarrow>
   ('p, 'u, 'c) emit_result" where
  "bpf_linker_emit_to_pwrite_stream malloc_ok T M codegen write_cb pwrite_cb seek_cb flush_cb w
     error_message =
     (let em = assign_message error_message None in
      case T of
        None \<Rightarrow> invalid_arguments malloc_ok M w em
      | Some TM \<Rightarrow>
      (case M of
        None \<Rightarrow> invalid_arguments malloc_ok M w em
      | Some Mod \<Rightarrow>
      if write_cb = None \<or> pwrite_cb = None then invalid_arguments malloc_ok M w em
      else
        let os = RustPwriteStream write_cb pwrite_cb seek_cb flush_cb;
            Mod1 = setDataLayout (createDataLayout TM) Mod;
            ft = (case codegen of LLVMAssemblyFile \<Rightarrow> AssemblyFile | _ \<Rightarrow> ObjectFile)
        in
        case run_pwrite_client (addPassesToEmitFile TM ft) os w of
          ((cannot_emit, pass), os1, w1) \<Rightarrow>
            if cannot_emit then
              (case RustPwriteStream_dtor os1 w1 of
                 (os', w') \<Rightarrow>
                   \<lparr>ret = 1,
                    message_after = assign_message em
                      (dup_cstr malloc_ok (Some ''TargetMachine can't emit a file of this type'')),
                    module_after = Some Mod1, sink_after = w', stream_after = Some os'\<rparr>)
            else
              (case run_pwrite_client (pass Mod1) os1 w1 of
                 (Mod2, os2, w2) \<Rightarrow>
              (case raw_ostream_flush os2 w2 of
                 (os3, w3) \<Rightarrow>
                   if had_error os3 then
                     (case RustPwriteStream_dtor os3 w3 of
                        (os', w') \<Rightarrow>
                          \<lparr>ret = 1,
                           message_after = assign_message em
                             (dup_cstr malloc_ok (Some ''error while writing to Rust pwrite stream'')),
                           module_after = Some Mod2, sink_after = w', stream_after = Some os'\<rparr>)
                   else
                     (case RustPwriteStream_dtor os3 w3 of
                        (os', w') \<Rightarrow>
                          \<lparr>ret = 0, message_after = em, module_after = Some Mod2,
                           sink_after = w', stream_after = Some os'\<rparr>)))))"

section \<open>Entry points of bitcode\_ir\_stream\_shim.cpp\<close>

record ('p, 'u) stream_result =
  o_ret :: c_int
  o_sink_after :: "('p, 'u) sink"
  o_stream_after :: "('p, 'u) RustRawOStream option"

text \<open>
  \<open>WriteBitcodeToFile\<close> and \<open>Module::print\<close> take the module as \<open>const\<close>; each is a
  parameter, a client of the stream chosen from the module.
\<close>

definition bpf_linker_write_bitcode_to_stream ::
  "('c Module \<Rightarrow> ('p, unit) ostream_client) \<Rightarrow> 'c Module option \<Rightarrow>
   ('p, 'u) rust_write_cb option \<Rightarrow> 'u rust_flush_cb option \<Rightarrow> ('p, 'u) sink \<Rightarrow>
   ('p, 'u) stream_result" where
  "bpf_linker_write_bitcode_to_stream WriteBitcodeToFile M write_cb flush_cb w =
     (case M of
        None \<Rightarrow> \<lparr>o_ret = 1, o_sink_after = w, o_stream_after = None\<rparr>
      | Some Mod \<Rightarrow>
        if write_cb = None then \<lparr>o_ret = 1, o_sink_after = w, o_stream_after = None\<rparr>
        else
          let os = RustRawOStream write_cb flush_cb in
          case run_ostream_client (WriteBitcodeToFile Mod) os w of
            (u, os1, w1) \<Rightarrow>
          (case raw_ostream_flush os1 w1 of
            (os2, w2) \<Rightarrow>
              let r = (if o_had_error os2 then 1 else 0) in
              (case RustRawOStream_dtor os2 w2 of
                 (os', w') \<Rightarrow> \<lparr>o_ret = r, o_sink_after = w', o_stream_after = Some os'\<rparr>)))"

definition bpf_linker_print_ir_to_stream ::
  "('c Module \<Rightarrow> ('p, unit) ostream_client) \<Rightarrow> 'c Module option \<Rightarrow>
   ('p, 'u) rust_write_cb option \<Rightarrow> 'u rust_flush_cb option \<Rightarrow> ('p, 'u) sink \<Rightarrow>
   ('p, 'u) stream_result" where
  "bpf_linker_print_ir_to_stream print M write_cb flush_cb w =
     (case M of
        None \<Rightarrow> \<lparr>o_ret = 1, o_sink_after = w, o_stream_after = None\<rparr>
      | Some Mod \<Rightarrow>
        if write_cb = None then \<lparr>o_ret = 1, o_sink_after = w, o_stream_after = None\<rparr>
        else
          let os = RustRawOStream write_cb flush_cb in
          case run_ostream_client (print Mod) os w of
            (u, os1, w1) \<Rightarrow>
          (case raw_ostream_flush os1 w1 of
            (os2, w2) \<Rightarrow>
              let r = (if o_had_error os2 then 1 else 0) in
              (case RustRawOStream_dtor os2 w2 of
                 (os', w') \<Rightarrow> \<lparr>o_ret = r, o_sink_after = w', o_stream_after = Some os'\<rparr>)))"

section \<open>Sequences of operations on one stream\<close>

datatype 'p stream_op =
    ForwardWrite 'p size_t
  | OffsetWrite 'p size_t uint64_t
  | Reposition uint64_t
  | Teardown

fun apply_op ::
  "'p stream_op \<Rightarrow> ('p, 'u) RustPwriteStream \<times> ('p, 'u) sink \<Rightarrow>
   ('p, 'u) RustPwriteStream \<times> ('p, 'u) sink" where
  "apply_op (ForwardWrite Ptr Size) (s, w) = write_impl Ptr Size s w"
| "apply_op (OffsetWrite Ptr Size Offset) (s, w) = pwrite_impl Ptr Size Offset s w"
| "apply_op (Reposition new_pos) (s, w) = snd (seek_append_pos new_pos s w)"
| "apply_op Teardown (s, w) = RustPwriteStream_dtor s w"

definition apply_ops ::
  "'p stream_op list \<Rightarrow> ('p, 'u) RustPwriteStream \<times> ('p, 'u) sink \<Rightarrow>
   ('p, 'u) RustPwriteStream \<times> ('p, 'u) sink" where
  "apply_ops ops sw = fold apply_op ops sw"

fun is_reposition :: "'p stream_op \<Rightarrow> bool" where
  "is_reposition (Reposition new_pos) = True"
| "is_reposition op = False"

fun is_write_op :: "'p stream_op \<Rightarrow> bool" where
  "is_write_op (ForwardWrite Ptr Size) = True"
| "is_write_op (OffsetWrite Ptr Size Offset) = True"
| "is_write_op op = False"

fun forward_size :: "'p stream_op \<Rightarrow> size_t" where
  "forward_size (ForwardWrite Ptr Size) = Size"
| "forward_size op = 0"

datatype 'p ostream_op = OForwardWrite 'p size_t | OTeardown

fun o_apply_op ::
  "'p ostream_op \<Rightarrow> ('p, 'u) RustRawOStream \<times> ('p, 'u) sink \<Rightarrow>
   ('p, 'u) RustRawOStream \<times> ('p, 'u) sink" where
  "o_apply_op (OForwardWrite Ptr Size) (s, w) = o_write_impl Ptr Size s w"
| "o_apply_op OTeardown (s, w) = RustRawOStream_dtor s w"

definition o_apply_ops ::
  "'p ostream_op list \<Rightarrow> ('p, 'u) RustRawOStream \<times> ('p, 'u) sink \<Rightarrow>
   ('p, 'u) RustRawOStream \<times> ('p, 'u) sink" where
  "o_apply_ops ops sw = fold o_apply_op ops sw"

fun o_forward_size :: "'p ostream_op \<Rightarrow> size_t" where
  "o_forward_size (OForwardWrite Ptr Size) = Size"
| "o_forward_size op = 0"

definition new_calls :: "('p, 'u) sink \<Rightarrow> ('p, 'u) sink \<Rightarrow> 'p event list" where
  "new_calls w w' = drop (length (calls w)) (calls w')"

section \<open>A sample sink\<close>

text \<open>
  The sink of the examples is a byte vector, as the contract of the entry point asks:
  \<open>vec_write\<close> appends, \<open>vec_pwrite\<close> overwrites at the offset after filling a gap
  with zero bytes. The failing callbacks return 1 and leave the vector alone. The sample
  target emits a header and a body and then patches the header; the other target
  refuses every file type.
\<close>

definition vec_write :: "(string, string) rust_write_cb" where
  "vec_write data len u = (0, u @ data)"

definition vec_pwrite :: "(string, string) rust_pwrite_cb" where
  "vec_pwrite data len offset u =
     (0, take (unat offset) (u @ replicate (unat offset - length u) (CHR 0x00)) @ data @
         drop (unat offset + length data) u)"

definition vec_seek :: "string rust_seek_cb" where
  "vec_seek offset u = (0, u)"

definition vec_flush :: "string rust_flush_cb" where
  "vec_flush u = (0, u)"

definition failing_write :: "(string, string) rust_write_cb" where
  "failing_write data len u = (1, u)"

definition failing_seek :: "string rust_seek_cb" where
  "failing_seek offset u = (1, u)"

definition failing_flush :: "string rust_flush_cb" where
  "failing_flush u = (1, u)"

definition empty_sink :: "(string, string) sink" where
  "empty_sink = \<lparr>user = [], calls = []\<rparr>"

definition unsupported_target :: "(string, unit) TargetMachine" where
  "unsupported_target =
     \<lparr>createDataLayout = ''e-m:e-p:64:64-i64:64-i128:128-n32:64-S128'',
      addPassesToEmitFile = (\<lambda>ft. Return (True, (\<lambda>m. Return m)))\<rparr>"

definition object_passes :: "(string, unit) PassManager" where
  "object_passes m =
     Write ''head'' 4 (Write ''body'' 4 (Tell (\<lambda>end_pos. Pwrite ''size'' 4 0 (Return m))))"

definition bpf_target :: "(string, unit) TargetMachine" where
  "bpf_target =
     \<lparr>createDataLayout = ''e-m:e-p:64:64-i64:64-i128:128-n32:64-S128'',
      addPassesToEmitFile = (\<lambda>ft. Return (False, object_passes))\<rparr>"

definition some_module :: "unit Module" where
  "some_module = \<lparr>DataLayout = [], contents = ()\<rparr>"


definition bitcode_writer :: "unit Module \<Rightarrow> (string, unit) ostream_client" where
  "bitcode_writer m = OWrite ''BC'' 2 (OWrite ''0123456789'' 10 (OReturn ()))"

text \<open>
  Streams for the examples: one whose write callback fails, the same after its first
  write, and one whose seek callback fails.
\<close>

definition seek_failing_stream :: "(string, string) RustPwriteStream" where
  "seek_failing_stream =
     RustPwriteStream (Some vec_write) (Some vec_pwrite) (Some failing_seek) (Some vec_flush)"

definition write_failing_stream :: "(string, string) RustPwriteStream" where
  "write_failing_stream =
     RustPwriteStream (Some failing_write) (Some vec_pwrite) (Some vec_seek) (Some vec_flush)"

definition latched_stream :: "(string, string) RustPwriteStream" where
  "latched_stream =
     fst (write_impl ''ab'' 2
       (RustPwriteStream (Some failing_write) (Some vec_pwrite) (Some vec_seek) (Some vec_flush))
       empty_sink)"

definition latched_sink :: "(string, string) sink" where
  "latched_sink =
     snd (write_impl ''ab'' 2
       (RustPwriteStream (Some failing_write) (Some vec_pwrite) (Some vec_seek) (Some vec_flush))
       empty_sink)"

definition latched_ostream :: "(string, string) RustRawOStream" where
  "latched_ostream =
     fst (o_write_impl ''ab'' 2 (RustRawOStream (Some failing_write) (Some vec_flush)) empty_sink)"

section \<open>Properties of a log of callback invocations\<close>

definition is_data :: "'p event \<Rightarrow> bool" where
  "is_data e =
     (case fst e of WriteCall Ptr Size \<Rightarrow> True | PwriteCall Ptr Size Offset \<Rightarrow> True | _ \<Rightarrow> False)"

text \<open>
  \<open>silent_once_latched b evs\<close>: starting with the latch at \<open>b\<close>, no invocation in \<open>evs\<close>
  happens after the latch is set, where each non-zero status sets it.
\<close>

fun silent_once_latched :: "bool \<Rightarrow> 'p event list \<Rightarrow> bool" where
  "silent_once_latched b [] = True"
| "silent_once_latched b (e # es) = (\<not> b \<and> silent_once_latched (failed e) es)"

text \<open>
  \<open>forwarded s w s' w' evs\<close> relates a stream and sink before and after a run of forward
  and offset writes that logged \<open>evs\<close>.
\<close>

definition forwarded ::
  "('p, 'u) RustPwriteStream \<Rightarrow> ('p, 'u) sink \<Rightarrow> ('p, 'u) RustPwriteStream \<Rightarrow> ('p, 'u) sink \<Rightarrow>
   'p event list \<Rightarrow> bool" where
  "forwarded s w s' w' evs =
     (calls w' = calls w @ evs \<and> list_all is_data evs \<and>
      silent_once_latched (had_error_p s) evs \<and>
      had_error_p s' = (had_error_p s \<or> list_ex failed evs) \<and>
      write_cb_p s' = write_cb_p s \<and> pwrite_cb_p s' = pwrite_cb_p s \<and>
      seek_cb_p s' = seek_cb_p s \<and> flush_cb_p s' = flush_cb_p s)"

definition o_forwarded ::
  "('p, 'u) RustRawOStream \<Rightarrow> ('p, 'u) sink \<Rightarrow> ('p, 'u) RustRawOStream \<Rightarrow> ('p, 'u) sink \<Rightarrow>
   'p event list \<Rightarrow> bool" where
  "o_forwarded s w s' w' evs =
     (calls w' = calls w @ evs \<and> list_all is_data evs \<and>
      silent_once_latched (had_error_o s) evs \<and>
      had_error_o s' = (had_error_o s \<or> list_ex failed evs) \<and>
      write_cb_o s' = write_cb_o s \<and> flush_cb_o s' = flush_cb_o s)"

section \<open>Sample calls\<close>

definition emit_sample ::
  "(string, unit) TargetMachine \<Rightarrow> (string, string) rust_write_cb \<Rightarrow> string rust_flush_cb \<Rightarrow>
   (string, string, unit) emit_result" where
  "emit_sample TM wcb fcb =
     bpf_linker_emit_to_pwrite_stream True (Some TM) (Some some_module) LLVMObjectFile
       (Some wcb) (Some vec_pwrite) None (Some fcb) empty_sink (Some (Some ''stale''))"

definition bitcode_sample ::
  "(string, string) rust_write_cb \<Rightarrow> string rust_flush_cb \<Rightarrow> (string, string) stream_result" where
  "bitcode_sample wcb fcb =
     bpf_linker_write_bitcode_to_stream bitcode_writer (Some some_module) (Some wcb) (Some fcb)
       empty_sink"

definition print_ir_sample ::
  "(string, string) rust_write_cb \<Rightarrow> string rust_flush_cb \<Rightarrow> (string, string) stream_result" where
  "print_ir_sample wcb fcb =
     bpf_linker_print_ir_to_stream bitcode_writer (Some some_module) (Some wcb) (Some fcb)
       empty_sink"

section \<open>The flush callback in a log\<close>

definition flushes :: "'p event list \<Rightarrow> nat" where
  "flushes evs = length (filter is_flush evs)"

text \<open>
  \<open>flush_only_while_clear b evs\<close>: starting with the latch at \<open>b\<close>, every flush in
  \<open>evs\<close> happens while no earlier invocation has returned non-zero.
\<close>

fun flush_only_while_clear :: "bool \<Rightarrow> 'p event list \<Rightarrow> bool" where
  "flush_only_while_clear b [] = True"
| "flush_only_while_clear b (e # es) =
     ((if is_flush e then \<not> b else True) \<and> flush_only_while_clear (b \<or> failed e) es)"

section \<open>Single operations\<close>

lemma invoke_calls: "calls (snd (invoke c f w)) = calls w @ [(c, fst (f (user w)))]"
  by (simp add: invoke_def split: prod.splits)

lemma invoke_fst: "fst (invoke c f w) = fst (f (user w))"
  by (simp add: invoke_def split: prod.splits)

lemma write_impl_zero: "write_impl Ptr 0 s w = (s, w)"
  by (simp add: write_impl_def)

lemma pwrite_impl_zero: "pwrite_impl Ptr 0 Offset s w = (s, w)"
  by (simp add: pwrite_impl_def)

lemma o_write_impl_zero: "o_write_impl Ptr 0 s w = (s, w)"
  by (simp add: o_write_impl_def)

lemma write_impl_latched: "had_error_p s \<Longrightarrow> write_impl Ptr Size s w = (s, w)"
  by (simp add: write_impl_def)

lemma pwrite_impl_latched: "had_error_p s \<Longrightarrow> pwrite_impl Ptr Size Offset s w = (s, w)"
  by (simp add: pwrite_impl_def)

lemma dtor_latched: "had_error_p s \<Longrightarrow> RustPwriteStream_dtor s w = (s, w)"
  by (simp add: RustPwriteStream_dtor_def)

lemma o_write_impl_latched: "had_error_o s \<Longrightarrow> o_write_impl Ptr Size s w = (s, w)"
  by (simp add: o_write_impl_def)

lemma o_dtor_latched: "had_error_o s \<Longrightarrow> RustRawOStream_dtor s w = (s, w)"
  by (simp add: RustRawOStream_dtor_def raw_ostream_flush_def)

lemma apply_ops_latched:
  "had_error_p s \<Longrightarrow> \<forall>op\<in>set ops. \<not> is_reposition op \<Longrightarrow> apply_ops ops (s, w) = (s, w)"
proof (induction ops)
  case Nil
  then show ?case by (simp add: apply_ops_def)
next
  case (Cons op ops)
  then have "apply_op op (s, w) = (s, w)"
    by (cases op) (simp_all add: write_impl_latched pwrite_impl_latched dtor_latched)
  with Cons show ?case by (simp add: apply_ops_def)
qed

lemma o_apply_ops_latched: "had_error_o s \<Longrightarrow> o_apply_ops ops (s, w) = (s, w)"
proof (induction ops)
  case Nil
  then show ?case by (simp add: o_apply_ops_def)
next
  case (Cons op ops)
  then have "o_apply_op op (s, w) = (s, w)"
    by (cases op) (simp_all add: o_write_impl_latched o_dtor_latched)
  with Cons show ?case by (simp add: o_apply_ops_def)
qed

lemma apply_op_keeps_latch: "had_error_p (fst sw) \<Longrightarrow> had_error_p (fst (apply_op op sw))"
  by (cases op; cases sw)
     (simp_all add: write_impl_latched pwrite_impl_latched dtor_latched seek_append_pos_def
        Let_def split: option.splits prod.splits)

lemma apply_ops_keeps_latch: "had_error_p (fst sw) \<Longrightarrow> had_error_p (fst (apply_ops ops sw))"
  by (induction ops arbitrary: sw) (simp_all add: apply_ops_def apply_op_keeps_latch)

lemma seek_calls:
  "seek_cb_p s = Some scb \<Longrightarrow>
   calls (snd (snd (seek_append_pos new_pos s w))) =
     calls w @ [(SeekCall new_pos, fst (scb new_pos (user w)))]"
  by (simp add: seek_append_pos_def invoke_def split: prod.splits)

lemma silent_append:
  "silent_once_latched b (xs @ ys) =
     (silent_once_latched b xs \<and> silent_once_latched (b \<or> list_ex failed xs) ys)"
proof (induction xs arbitrary: b)
  case Nil
  then show ?case by simp
next
  case (Cons e es)
  then show ?case by (cases b) simp_all
qed

lemma silent_latched: "silent_once_latched True evs = (evs = [])"
  by (cases evs) simp_all

lemma forwarded_refl: "forwarded s w s w []"
  by (simp add: forwarded_def)

lemma forwarded_trans:
  "forwarded s w s1 w1 xs \<Longrightarrow> forwarded s1 w1 s2 w2 ys \<Longrightarrow> forwarded s w s2 w2 (xs @ ys)"
  by (auto simp: forwarded_def silent_append)

lemma write_impl_forwarded:
  assumes "write_cb_p s \<noteq> None" and "write_impl Ptr Size s w = (s', w')"
  shows "\<exists>evs. forwarded s w s' w' evs"
proof (cases "had_error_p s \<or> Size = 0")
  case True
  with assms have "s' = s" "w' = w" by (auto simp: write_impl_def)
  then show ?thesis using forwarded_refl by blast
next
  case False
  from assms obtain wcb where wcb: "write_cb_p s = Some wcb" by auto
  obtain rc u' where cb: "wcb Ptr Size (user w) = (rc, u')" by (cases "wcb Ptr Size (user w)")
  have "forwarded s w s' w' [(WriteCall Ptr Size, rc)]"
    using assms(2) False wcb cb
    by (auto simp: write_impl_def invoke_def forwarded_def is_data_def failed_def
        split: if_splits)
  then show ?thesis by blast
qed

lemma pwrite_impl_forwarded:
  assumes "pwrite_cb_p s \<noteq> None" and "pwrite_impl Ptr Size Offset s w = (s', w')"
  shows "\<exists>evs. forwarded s w s' w' evs"
proof (cases "had_error_p s \<or> Size = 0")
  case True
  with assms have "s' = s" "w' = w" by (auto simp: pwrite_impl_def)
  then show ?thesis using forwarded_refl by blast
next
  case False
  from assms obtain pcb where pcb: "pwrite_cb_p s = Some pcb" by auto
  obtain rc u' where cb: "pcb Ptr Size Offset (user w) = (rc, u')"
    by (cases "pcb Ptr Size Offset (user w)")
  have "forwarded s w s' w' [(PwriteCall Ptr Size Offset, rc)]"
    using assms(2) False pcb cb
    by (auto simp: pwrite_impl_def invoke_def forwarded_def is_data_def failed_def
        split: if_splits)
  then show ?thesis by blast
qed

lemma run_pwrite_client_forwarded:
  assumes "write_cb_p s \<noteq> None" and "pwrite_cb_p s \<noteq> None"
    and "run_pwrite_client k s w = (r, s', w')"
  shows "\<exists>evs. forwarded s w s' w' evs"
  using assms
proof (induction k arbitrary: s w)
  case (Return x)
  then show ?case using forwarded_refl by auto
next
  case (Write Ptr Size k)
  obtain s1 w1 where step: "write_impl Ptr Size s w = (s1, w1)"
    by (cases "write_impl Ptr Size s w")
  obtain xs where xs: "forwarded s w s1 w1 xs"
    using write_impl_forwarded [OF Write.prems(1) step] by (rule exE)
  have "run_pwrite_client k s1 w1 = (r, s', w')" using Write.prems(3) step by simp
  moreover have "write_cb_p s1 \<noteq> None" "pwrite_cb_p s1 \<noteq> None"
    using xs Write.prems by (simp_all add: forwarded_def)
  ultimately obtain ys where "forwarded s1 w1 s' w' ys" using Write.IH by blast
  with xs show ?case using forwarded_trans by blast
next
  case (Pwrite Ptr Size Offset k)
  obtain s1 w1 where step: "pwrite_impl Ptr Size Offset s w = (s1, w1)"
    by (cases "pwrite_impl Ptr Size Offset s w")
  obtain xs where xs: "forwarded s w s1 w1 xs"
    using pwrite_impl_forwarded [OF Pwrite.prems(2) step] by (rule exE)
  have "run_pwrite_client k s1 w1 = (r, s', w')" using Pwrite.prems(3) step by simp
  moreover have "write_cb_p s1 \<noteq> None" "pwrite_cb_p s1 \<noteq> None"
    using xs Pwrite.prems by (simp_all add: forwarded_def)
  ultimately obtain ys where "forwarded s1 w1 s' w' ys" using Pwrite.IH by blast
  with xs show ?case using forwarded_trans by blast
next
  case (Tell k)
  have "run_pwrite_client (k (current_pos s)) s w = (r, s', w')" using Tell.prems(3) by simp
  then show ?case using Tell.IH Tell.prems(1,2) by blast
qed

lemma o_forwarded_refl: "o_forwarded s w s w []"
  by (simp add: o_forwarded_def)

lemma o_forwarded_trans:
  "o_forwarded s w s1 w1 xs \<Longrightarrow> o_forwarded s1 w1 s2 w2 ys \<Longrightarrow> o_forwarded s w s2 w2 (xs @ ys)"
  by (auto simp: o_forwarded_def silent_append)

lemma o_write_impl_forwarded:
  assumes "write_cb_o s \<noteq> None" and "o_write_impl Ptr Size s w = (s', w')"
  shows "\<exists>evs. o_forwarded s w s' w' evs"
proof (cases "had_error_o s \<or> Size = 0")
  case True
  with assms have "s' = s" "w' = w" by (auto simp: o_write_impl_def)
  then show ?thesis using o_forwarded_refl by blast
next
  case False
  from assms obtain wcb where wcb: "write_cb_o s = Some wcb" by auto
  obtain rc u' where cb: "wcb Ptr Size (user w) = (rc, u')" by (cases "wcb Ptr Size (user w)")
  have "o_forwarded s w s' w' [(WriteCall Ptr Size, rc)]"
    using assms(2) False wcb cb
    by (auto simp: o_write_impl_def invoke_def o_forwarded_def is_data_def failed_def
        split: if_splits)
  then show ?thesis by blast
qed

lemma run_ostream_client_forwarded:
  assumes "write_cb_o s \<noteq> None" and "run_ostream_client k s w = (r, s', w')"
  shows "\<exists>evs. o_forwarded s w s' w' evs"
  using assms
proof (induction k arbitrary: s w)
  case (OReturn x)
  then show ?case using o_forwarded_refl by auto
next
  case (OWrite Ptr Size k)
  obtain s1 w1 where step: "o_write_impl Ptr Size s w = (s1, w1)"
    by (cases "o_write_impl Ptr Size s w")
  obtain xs where xs: "o_forwarded s w s1 w1 xs"
    using o_write_impl_forwarded [OF OWrite.prems(1) step] by (rule exE)
  have "run_ostream_client k s1 w1 = (r, s', w')" using OWrite.prems(2) step by simp
  moreover have "write_cb_o s1 \<noteq> None" using xs OWrite.prems by (simp add: o_forwarded_def)
  ultimately obtain ys where "o_forwarded s1 w1 s' w' ys" using OWrite.IH by blast
  with xs show ?case using o_forwarded_trans by blast
next
  case (OTell k)
  have "run_ostream_client (k (o_current_pos s)) s w = (r, s', w')" using OTell.prems(2) by simp
  then show ?case using OTell.IH OTell.prems(1) by blast
qed

section \<open>Zero-length writes\<close>

text \<open>
  C6. On either stream, whatever its position and latch, a forward write of length 0 and
  an offset-write of length 0 return the stream and the sink as they were: no callback is
  invoked (the log and the user state are unchanged), no error is set, and the position
  and the latch keep their values.
\<close>

theorem zero_length_write_is_noop:
  "write_impl Ptr 0 s w = (s, w) \<and>
   pwrite_impl Ptr 0 Offset s w = (s, w) \<and>
   o_write_impl Ptr 0 os w = (os, w)"
  by (simp add: write_impl_def pwrite_impl_def o_write_impl_def)

lemma run_pwrite_client_latched:
  "had_error_p s \<Longrightarrow> run_pwrite_client k s w = (fst (run_pwrite_client k s w), s, w)"
  by (induction k) (simp_all add: write_impl_latched pwrite_impl_latched)

lemma run_ostream_client_latched:
  "had_error_o s \<Longrightarrow> run_ostream_client k s w = (fst (run_ostream_client k s w), s, w)"
  by (induction k) (simp_all add: o_write_impl_latched)

lemma latched_stream_eval:
  "latched_stream =
     \<lparr>write_cb_p = Some failing_write, pwrite_cb_p = Some vec_pwrite, seek_cb_p = Some vec_seek,
      flush_cb_p = Some vec_flush, pos_p = 0, had_error_p = True\<rparr>"
  by (simp add: latched_stream_def write_impl_def RustPwriteStream_def invoke_def
      failing_write_def empty_sink_def)

lemma latched_sink_eval:
  "latched_sink = \<lparr>user = [], calls = [(WriteCall ''ab'' 2, 1)]\<rparr>"
  by (simp add: latched_sink_def write_impl_def RustPwriteStream_def invoke_def
      failing_write_def empty_sink_def)

lemma latched_ostream_eval:
  "latched_ostream =
     \<lparr>write_cb_o = Some failing_write, flush_cb_o = Some vec_flush, pos_o = 0,
      had_error_o = True\<rparr>"
  by (simp add: latched_ostream_def o_write_impl_def RustRawOStream_def invoke_def
      failing_write_def empty_sink_def)

section \<open>The latch\<close>

text \<open>
  C1, as amended. Once the error flag of a stream is set, no forward write, offset-write
  or destructor flush invokes a callback again: any sequence of these operations, and any
  emitter run on the stream, returns the stream and the sink unchanged, on both stream
  classes. The flag stays set under every operation, repositioning included. Repositioning
  is not gated by the flag: \<open>seek_append_pos\<close> invokes the seek callback whenever one
  was supplied, latched or not.
\<close>

theorem latched_stream_forwards_nothing:
  assumes "had_error_p s" and "had_error_o os" and "\<forall>op\<in>set ops. \<not> is_reposition op"
  shows "apply_ops ops (s, w) = (s, w) \<and>
         snd (run_pwrite_client k s w) = (s, w) \<and>
         o_apply_ops o_ops (os, w) = (os, w) \<and>
         snd (run_ostream_client ok os w) = (os, w) \<and>
         had_error_p (fst (apply_ops any_ops (s, w))) \<and>
         (case seek_cb_p s of
            None \<Rightarrow> calls (snd (snd (seek_append_pos new_pos s w))) = calls w
          | Some scb \<Rightarrow>
              calls (snd (snd (seek_append_pos new_pos s w))) =
                calls w @ [(SeekCall new_pos, fst (scb new_pos (user w)))])"
proof -
  have a: "apply_ops ops (s, w) = (s, w)"
    using assms(1,3) by (rule apply_ops_latched)
  have b: "snd (run_pwrite_client k s w) = (s, w)"
    using run_pwrite_client_latched [OF assms(1), of k w] by (metis snd_conv)
  have c: "o_apply_ops o_ops (os, w) = (os, w)"
    using assms(2) by (rule o_apply_ops_latched)
  have d: "snd (run_ostream_client ok os w) = (os, w)"
    using run_ostream_client_latched [OF assms(2), of ok w] by (metis snd_conv)
  have e: "had_error_p (fst (apply_ops any_ops (s, w)))"
    using apply_ops_keeps_latch [of "(s, w)" any_ops] assms(1) by simp
  have f: "case seek_cb_p s of
            None \<Rightarrow> calls (snd (snd (seek_append_pos new_pos s w))) = calls w
          | Some scb \<Rightarrow>
              calls (snd (snd (seek_append_pos new_pos s w))) =
                calls w @ [(SeekCall new_pos, fst (scb new_pos (user w)))]"
    by (simp add: seek_append_pos_def invoke_def split: option.splits prod.splits)
  from a b c d e f show ?thesis by blast
qed

theorem latched_stream_forwards_nothing_witness:
  "had_error_p latched_stream \<and> had_error_o latched_ostream \<and>
   apply_ops [ForwardWrite ''cd'' 2, OffsetWrite ''e'' 1 0, Teardown] (latched_stream, latched_sink)
     = (latched_stream, latched_sink) \<and>
   snd (run_pwrite_client (object_passes some_module) latched_stream latched_sink)
     = (latched_stream, latched_sink) \<and>
   o_apply_ops [OForwardWrite ''cd'' 2, OTeardown] (latched_ostream, latched_sink)
     = (latched_ostream, latched_sink) \<and>
   snd (run_ostream_client (bitcode_writer some_module) latched_ostream latched_sink)
     = (latched_ostream, latched_sink) \<and>
   had_error_p (fst (apply_ops [Reposition 7, ForwardWrite ''cd'' 2] (latched_stream, latched_sink))) \<and>
   calls (snd (snd (seek_append_pos 7 latched_stream latched_sink))) =
     [(WriteCall ''ab'' 2, 1), (SeekCall 7, 0)]"
proof -
  have h1: "had_error_p latched_stream" by (simp add: latched_stream_eval)
  have h2: "had_error_o latched_ostream" by (simp add: latched_ostream_eval)
  have h3: "\<forall>op\<in>set [ForwardWrite ''cd'' 2, OffsetWrite ''e'' 1 0, Teardown :: string stream_op].
              \<not> is_reposition op" by simp
  show ?thesis
    using latched_stream_forwards_nothing [OF h1 h2 h3, of latched_sink
        "object_passes some_module" "[OForwardWrite ''cd'' 2, OTeardown]"
        "bitcode_writer some_module" "[Reposition 7, ForwardWrite ''cd'' 2]" 7] h1 h2
    by (simp add: latched_stream_eval latched_sink_eval vec_seek_def)
qed

text \<open>
  C1 as stated fails for repositioning: on a stream whose flag was set by a failed write,
  \<open>seek_append_pos\<close> still invokes the seek callback.
\<close>

theorem reposition_ignores_latch_counterexample:
  "had_error_p latched_stream \<and>
   calls (snd (snd (seek_append_pos 7 latched_stream latched_sink))) =
     calls latched_sink @ [(SeekCall 7, 0)]"
  by (simp add: latched_stream_eval latched_sink_eval seek_append_pos_def invoke_def
      vec_seek_def)

section \<open>The append position\<close>

lemma write_impl_pos:
  "write_impl Ptr Size s w = (s', w') \<Longrightarrow> \<not> had_error_p s' \<Longrightarrow> pos_p s' = pos_p s + Size"
  by (auto simp: write_impl_def split: if_splits option.splits prod.splits)

lemma pwrite_impl_pos: "pwrite_impl Ptr Size Offset s w = (s', w') \<Longrightarrow> pos_p s' = pos_p s"
  by (auto simp: pwrite_impl_def split: if_splits option.splits prod.splits)

lemma o_write_impl_pos:
  "o_write_impl Ptr Size s w = (s', w') \<Longrightarrow> \<not> had_error_o s' \<Longrightarrow> pos_o s' = pos_o s + Size"
  by (auto simp: o_write_impl_def split: if_splits option.splits prod.splits)

lemma apply_ops_Cons: "apply_ops (op # ops) sw = apply_ops ops (apply_op op sw)"
  by (simp add: apply_ops_def)

lemma o_apply_ops_Cons: "o_apply_ops (op # ops) sw = o_apply_ops ops (o_apply_op op sw)"
  by (simp add: o_apply_ops_def)

lemma apply_ops_pos:
  assumes "\<forall>op\<in>set ops. is_write_op op" and "apply_ops ops (s, w) = (s', w')"
    and "\<not> had_error_p s'"
  shows "pos_p s' = pos_p s + sum_list (map forward_size ops)"
  using assms
proof (induction ops arbitrary: s w)
  case Nil
  then show ?case by (simp add: apply_ops_def)
next
  case (Cons op ops)
  obtain s1 w1 where step: "apply_op op (s, w) = (s1, w1)" by (cases "apply_op op (s, w)")
  have rest: "apply_ops ops (s1, w1) = (s', w')"
    using Cons.prems(2) step by (simp add: apply_ops_Cons)
  have clear: "\<not> had_error_p s1"
    using apply_ops_keeps_latch [of "(s1, w1)" ops] rest Cons.prems(3) by auto
  have "pos_p s1 = pos_p s + forward_size op"
  proof (cases op)
    case (ForwardWrite Ptr Size)
    then show ?thesis using step clear write_impl_pos by fastforce
  next
    case (OffsetWrite Ptr Size Offset)
    then show ?thesis using step pwrite_impl_pos by fastforce
  next
    case (Reposition new_pos)
    then show ?thesis using Cons.prems(1) by simp
  next
    case Teardown
    then show ?thesis using Cons.prems(1) by simp
  qed
  moreover have "pos_p s' = pos_p s1 + sum_list (map forward_size ops)"
    using Cons.IH [OF _ rest Cons.prems(3)] Cons.prems(1) by simp
  ultimately show ?case by simp
qed

lemma apply_ops_forwarded:
  assumes "\<forall>op\<in>set ops. is_write_op op" and "write_cb_p s \<noteq> None" and "pwrite_cb_p s \<noteq> None"
    and "apply_ops ops (s, w) = (s', w')"
  shows "\<exists>evs. forwarded s w s' w' evs"
  using assms
proof (induction ops arbitrary: s w)
  case Nil
  then show ?case using forwarded_refl by (auto simp: apply_ops_def)
next
  case (Cons op ops)
  obtain s1 w1 where step: "apply_op op (s, w) = (s1, w1)" by (cases "apply_op op (s, w)")
  have rest: "apply_ops ops (s1, w1) = (s', w')"
    using Cons.prems(4) step by (simp add: apply_ops_Cons)
  have "\<exists>xs. forwarded s w s1 w1 xs"
  proof (cases op)
    case (ForwardWrite Ptr Size)
    then show ?thesis using step write_impl_forwarded [OF Cons.prems(2)] by simp
  next
    case (OffsetWrite Ptr Size Offset)
    then show ?thesis using step pwrite_impl_forwarded [OF Cons.prems(3)] by simp
  next
    case (Reposition new_pos)
    then show ?thesis using Cons.prems(1) by simp
  next
    case Teardown
    then show ?thesis using Cons.prems(1) by simp
  qed
  then obtain xs where xs: "forwarded s w s1 w1 xs" by (rule exE)
  then have "write_cb_p s1 \<noteq> None" "pwrite_cb_p s1 \<noteq> None"
    using Cons.prems(2,3) by (simp_all add: forwarded_def)
  then obtain ys where "forwarded s1 w1 s' w' ys"
    using Cons.IH [OF _ _ _ rest] Cons.prems(1) by auto
  with xs show ?case using forwarded_trans by blast
qed

lemma forwarded_new_calls: "forwarded s w s' w' evs \<Longrightarrow> new_calls w w' = evs"
  by (simp add: forwarded_def new_calls_def)

lemma o_forwarded_new_calls: "o_forwarded s w s' w' evs \<Longrightarrow> new_calls w w' = evs"
  by (simp add: o_forwarded_def new_calls_def)

lemma list_ex_failed: "list_ex failed evs = (\<exists>e\<in>set evs. snd e \<noteq> 0)"
  by (simp add: list_ex_iff failed_def)

lemma o_apply_ops_keeps_latch:
  "had_error_o (fst sw) \<Longrightarrow> had_error_o (fst (o_apply_ops ops sw))"
  using o_apply_ops_latched [of "fst sw" ops "snd sw"] by simp

lemma o_apply_ops_pos:
  assumes "list_all (\<lambda>op. op \<noteq> OTeardown) ops" and "o_apply_ops ops (s, w) = (s', w')"
    and "\<not> had_error_o s'"
  shows "pos_o s' = pos_o s + sum_list (map o_forward_size ops)"
  using assms
proof (induction ops arbitrary: s w)
  case Nil
  then show ?case by (simp add: o_apply_ops_def)
next
  case (Cons op ops)
  obtain s1 w1 where step: "o_apply_op op (s, w) = (s1, w1)" by (cases "o_apply_op op (s, w)")
  have rest: "o_apply_ops ops (s1, w1) = (s', w')"
    using Cons.prems(2) step by (simp add: o_apply_ops_Cons)
  have clear: "\<not> had_error_o s1"
    using o_apply_ops_keeps_latch [of "(s1, w1)" ops] rest Cons.prems(3) by auto
  have "pos_o s1 = pos_o s + o_forward_size op"
  proof (cases op)
    case (OForwardWrite Ptr Size)
    then show ?thesis using step clear o_write_impl_pos by fastforce
  next
    case OTeardown
    then show ?thesis using Cons.prems(1) by simp
  qed
  moreover have "pos_o s' = pos_o s1 + sum_list (map o_forward_size ops)"
    using Cons.IH [OF _ rest Cons.prems(3)] Cons.prems(1) by simp
  ultimately show ?case by simp
qed

lemma o_apply_ops_forwarded:
  assumes "list_all (\<lambda>op. op \<noteq> OTeardown) ops" and "write_cb_o s \<noteq> None"
    and "o_apply_ops ops (s, w) = (s', w')"
  shows "\<exists>evs. o_forwarded s w s' w' evs"
  using assms
proof (induction ops arbitrary: s w)
  case Nil
  then show ?case using o_forwarded_refl by (auto simp: o_apply_ops_def)
next
  case (Cons op ops)
  obtain s1 w1 where step: "o_apply_op op (s, w) = (s1, w1)" by (cases "o_apply_op op (s, w)")
  have rest: "o_apply_ops ops (s1, w1) = (s', w')"
    using Cons.prems(3) step by (simp add: o_apply_ops_Cons)
  have "\<exists>xs. o_forwarded s w s1 w1 xs"
  proof (cases op)
    case (OForwardWrite Ptr Size)
    then show ?thesis using step o_write_impl_forwarded [OF Cons.prems(2)] by simp
  next
    case OTeardown
    then show ?thesis using Cons.prems(1) by simp
  qed
  then obtain xs where xs: "o_forwarded s w s1 w1 xs" by (rule exE)
  then have "write_cb_o s1 \<noteq> None"
    using Cons.prems(2) by (simp add: o_forwarded_def)
  then obtain ys where "o_forwarded s1 w1 s' w' ys"
    using Cons.IH [OF _ _ rest] Cons.prems(1) by auto
  with xs show ?case using o_forwarded_trans by blast
qed

lemma unat_sum_list:
  "sum_list (map unat xs) < 2 ^ 64 \<Longrightarrow> unat (sum_list xs :: 64 word) = sum_list (map unat xs)"
proof (induction xs)
  case Nil
  then show ?case by simp
next
  case (Cons x xs)
  then have "unat (sum_list xs) = sum_list (map unat xs)" by simp
  moreover have "unat x + sum_list (map unat xs) < 2 ^ 64" using Cons.prems by simp
  ultimately show ?case by (simp add: unat_word_ariths)
qed

text \<open>
  C4. On a stream as constructed, run any sequence of forward writes and offset-writes
  in which every invoked callback returned 0. Then \<open>current_pos\<close> is the sum of the
  sizes of the forward writes; the offset-writes, whatever their offsets and lengths,
  contribute nothing. The position is a \<open>uint64_t\<close>: the equality holds in 64-bit
  arithmetic, and between the numbers themselves when the sum is below \<open>2 ^ 64\<close>. The
  same holds for the forward-only stream.
\<close>

theorem position_is_sum_of_forward_writes:
  assumes "\<forall>op\<in>set ops. is_write_op op"
    and "apply_ops ops (RustPwriteStream (Some wcb) (Some pwcb) scb fcb, w) = (s', w')"
    and "\<forall>e\<in>set (new_calls w w'). snd e = 0"
    and "list_all (\<lambda>op. op \<noteq> OTeardown) o_ops"
    and "o_apply_ops o_ops (RustRawOStream (Some owcb) ofcb, v) = (os', v')"
    and "\<forall>e\<in>set (new_calls v v'). snd e = 0"
  shows "current_pos s' = sum_list (map forward_size ops) \<and>
         (sum_list (map (unat \<circ> forward_size) ops) < 2 ^ 64 \<longrightarrow>
            unat (current_pos s') = sum_list (map (unat \<circ> forward_size) ops)) \<and>
         o_current_pos os' = sum_list (map o_forward_size o_ops) \<and>
         (sum_list (map (unat \<circ> o_forward_size) o_ops) < 2 ^ 64 \<longrightarrow>
            unat (o_current_pos os') = sum_list (map (unat \<circ> o_forward_size) o_ops))"
proof -
  let ?s = "RustPwriteStream (Some wcb) (Some pwcb) scb fcb"
  let ?os = "RustRawOStream (Some owcb) ofcb"
  have cbs: "write_cb_p ?s \<noteq> None" "pwrite_cb_p ?s \<noteq> None" "write_cb_o ?os \<noteq> None"
    by (simp_all add: RustPwriteStream_def RustRawOStream_def)
  obtain evs where evs: "forwarded ?s w s' w' evs"
    using apply_ops_forwarded [OF assms(1) cbs(1) cbs(2) assms(2)] by (rule exE)
  have "\<not> list_ex failed evs"
    using assms(3) forwarded_new_calls [OF evs] by (simp add: list_ex_failed)
  then have clear: "\<not> had_error_p s'"
    using evs by (simp add: forwarded_def RustPwriteStream_def)
  have p: "current_pos s' = sum_list (map forward_size ops)"
    using apply_ops_pos [OF assms(1) assms(2) clear]
    by (simp add: current_pos_def RustPwriteStream_def)
  obtain oevs where oevs: "o_forwarded ?os v os' v' oevs"
    using o_apply_ops_forwarded [OF assms(4) cbs(3) assms(5)] by (rule exE)
  have "\<not> list_ex failed oevs"
    using assms(6) o_forwarded_new_calls [OF oevs] by (simp add: list_ex_failed)
  then have oclear: "\<not> had_error_o os'"
    using oevs by (simp add: o_forwarded_def RustRawOStream_def)
  have q: "o_current_pos os' = sum_list (map o_forward_size o_ops)"
    using o_apply_ops_pos [OF assms(4) assms(5) oclear]
    by (simp add: o_current_pos_def RustRawOStream_def)
  have pn: "sum_list (map (unat \<circ> forward_size) ops) < 2 ^ 64 \<longrightarrow>
      unat (current_pos s') = sum_list (map (unat \<circ> forward_size) ops)"
    using unat_sum_list [of "map forward_size ops"] p by (simp add: comp_def)
  have qn: "sum_list (map (unat \<circ> o_forward_size) o_ops) < 2 ^ 64 \<longrightarrow>
      unat (o_current_pos os') = sum_list (map (unat \<circ> o_forward_size) o_ops)"
    using unat_sum_list [of "map o_forward_size o_ops"] q by (simp add: comp_def)
  from p pn q qn show ?thesis by blast
qed

theorem position_is_sum_of_forward_writes_witness:
  "current_pos (fst (apply_ops
      [ForwardWrite ''0123456789'' 10, OffsetWrite ''ab'' 2 4,
       ForwardWrite ''01234567890123456789'' 20]
      (RustPwriteStream (Some vec_write) (Some vec_pwrite) None (Some vec_flush), empty_sink))) = 30 \<and>
   o_current_pos (fst (o_apply_ops
      [OForwardWrite ''0123456789'' 10, OForwardWrite ''01234567890123456789'' 20]
      (RustRawOStream (Some vec_write) (Some vec_flush), empty_sink))) = 30"
proof -
  let ?ops = "[ForwardWrite ''0123456789'' 10, OffsetWrite ''ab'' 2 4,
       ForwardWrite ''01234567890123456789'' 20] :: string stream_op list"
  let ?o_ops = "[OForwardWrite ''0123456789'' 10, OForwardWrite ''01234567890123456789'' 20]
       :: string ostream_op list"
  let ?r = "apply_ops ?ops
      (RustPwriteStream (Some vec_write) (Some vec_pwrite) None (Some vec_flush), empty_sink)"
  let ?q = "o_apply_ops ?o_ops (RustRawOStream (Some vec_write) (Some vec_flush), empty_sink)"
  have h1: "\<forall>op\<in>set ?ops. is_write_op op" by simp
  have h2: "?r = (fst ?r, snd ?r)" by simp
  have h3: "\<forall>e\<in>set (new_calls empty_sink (snd ?r)). snd e = 0"
    by (simp add: apply_ops_def write_impl_def pwrite_impl_def invoke_def vec_write_def
        vec_pwrite_def RustPwriteStream_def empty_sink_def new_calls_def)
  have h4: "list_all (\<lambda>op. op \<noteq> OTeardown) ?o_ops" by simp
  have h5: "?q = (fst ?q, snd ?q)" by simp
  have h6: "\<forall>e\<in>set (new_calls empty_sink (snd ?q)). snd e = 0"
    by (simp add: o_apply_ops_def o_write_impl_def invoke_def vec_write_def
        RustRawOStream_def empty_sink_def new_calls_def)
  show ?thesis
    using position_is_sum_of_forward_writes [OF h1 h2 h3 h4 h5 h6] by simp
qed

section \<open>The entry points after validation\<close>

lemma assign_message_twice:
  "assign_message (assign_message error_message x) y = assign_message error_message y"
  by (simp add: assign_message_def split: option.splits)

lemma emit_invalid:
  assumes "T = None \<or> M = None \<or> write_cb = None \<or> pwrite_cb = None"
  shows "bpf_linker_emit_to_pwrite_stream malloc_ok T M codegen write_cb pwrite_cb seek_cb
           flush_cb w error_message =
         \<lparr>ret = 1,
          message_after = assign_message error_message
            (dup_cstr malloc_ok
               (Some ''invalid arguments: TM/Mod/write_cb/pwrite_cb must be non-null'')),
          module_after = M, sink_after = w, stream_after = None\<rparr>"
  using assms
  by (auto simp: bpf_linker_emit_to_pwrite_stream_def invalid_arguments_def Let_def
      assign_message_twice split: option.splits)

lemma emit_valid:
  assumes "run_pwrite_client
             (addPassesToEmitFile TM
                (case codegen of LLVMAssemblyFile \<Rightarrow> AssemblyFile | _ \<Rightarrow> ObjectFile))
             (RustPwriteStream (Some wcb) (Some pwcb) scb fcb) w = ((cannot_emit, pass), os1, w1)"
    and "run_pwrite_client (pass (setDataLayout (createDataLayout TM) Mod)) os1 w1 = (Mod2, os2, w2)"
  shows "bpf_linker_emit_to_pwrite_stream malloc_ok (Some TM) (Some Mod) codegen (Some wcb)
           (Some pwcb) scb fcb w error_message =
         (if cannot_emit then
            \<lparr>ret = 1,
             message_after = assign_message error_message
               (dup_cstr malloc_ok (Some ''TargetMachine can't emit a file of this type'')),
             module_after = Some (setDataLayout (createDataLayout TM) Mod),
             sink_after = snd (RustPwriteStream_dtor os1 w1),
             stream_after = Some (fst (RustPwriteStream_dtor os1 w1))\<rparr>
          else
            \<lparr>ret = (if had_error_p os2 then 1 else 0),
             message_after = assign_message error_message
               (if had_error_p os2
                then dup_cstr malloc_ok (Some ''error while writing to Rust pwrite stream'')
                else None),
             module_after = Some Mod2,
             sink_after = snd (RustPwriteStream_dtor os2 w2),
             stream_after = Some (fst (RustPwriteStream_dtor os2 w2))\<rparr>)"
  using assms
  by (simp add: bpf_linker_emit_to_pwrite_stream_def Let_def assign_message_twice
      raw_ostream_flush_def had_error_def split: prod.splits)

lemma dtor_calls:
  "calls (snd (RustPwriteStream_dtor s w)) =
     calls w @
       (if had_error_p s then []
        else case flush_cb_p s of None \<Rightarrow> [] | Some f \<Rightarrow> [(FlushCall, fst (f (user w)))])"
  by (auto simp: RustPwriteStream_dtor_def invoke_def split: option.splits prod.splits)

lemma o_dtor_calls:
  "calls (snd (RustRawOStream_dtor s w)) =
     calls w @
       (if had_error_o s then []
        else case flush_cb_o s of None \<Rightarrow> [] | Some f \<Rightarrow> [(FlushCall, fst (f (user w)))])"
  by (auto simp: RustRawOStream_dtor_def raw_ostream_flush_def invoke_def
      split: option.splits prod.splits)

lemma dtor_after_forwarded:
  assumes "forwarded (RustPwriteStream wcb pwcb scb fcb) w s' w' body"
  shows "calls (snd (RustPwriteStream_dtor s' w')) =
           calls w @ body @
             (if list_ex failed body then []
              else case fcb of None \<Rightarrow> [] | Some f \<Rightarrow> [(FlushCall, fst (f (user w')))])"
  using assms by (simp add: dtor_calls forwarded_def RustPwriteStream_def)

lemma o_dtor_after_forwarded:
  assumes "o_forwarded (RustRawOStream wcb fcb) w s' w' body"
  shows "calls (snd (RustRawOStream_dtor s' w')) =
           calls w @ body @
             (if list_ex failed body then []
              else case fcb of None \<Rightarrow> [] | Some f \<Rightarrow> [(FlushCall, fst (f (user w')))])"
  using assms by (simp add: o_dtor_calls o_forwarded_def RustRawOStream_def)

text \<open>
  The log of a whole call that passed validation: the writes of the emitter, none after
  a failure, then the destructor's flush when no write failed and a flush callback was
  given.
\<close>

lemma emit_log:
  fixes TM :: "('p, 'c) TargetMachine" and w :: "('p, 'u) sink"
  shows "\<exists>body u.
     calls (sink_after (bpf_linker_emit_to_pwrite_stream malloc_ok (Some TM) (Some Mod) codegen
        (Some wcb) (Some pwcb) scb fcb w error_message)) =
       calls w @ body @
         (if list_ex failed body then []
          else case fcb of None \<Rightarrow> [] | Some f \<Rightarrow> [(FlushCall, fst (f u))]) \<and>
     list_all is_data body \<and> silent_once_latched False body \<and>
     (list_ex failed body \<longrightarrow>
        ret (bpf_linker_emit_to_pwrite_stream malloc_ok (Some TM) (Some Mod) codegen
          (Some wcb) (Some pwcb) scb fcb w error_message) = 1)"
proof -
  let ?os = "RustPwriteStream (Some wcb) (Some pwcb) scb fcb :: ('p, 'u) RustPwriteStream"
  let ?ft = "case codegen of LLVMAssemblyFile \<Rightarrow> AssemblyFile | _ \<Rightarrow> ObjectFile"
  let ?Mod1 = "setDataLayout (createDataLayout TM) Mod"
  have cbs: "write_cb_p ?os \<noteq> None" "pwrite_cb_p ?os \<noteq> None" "\<not> had_error_p ?os"
    by (simp_all add: RustPwriteStream_def)
  obtain cannot_emit pass os1 w1 where run1:
    "run_pwrite_client (addPassesToEmitFile TM ?ft) ?os w = ((cannot_emit, pass), os1, w1)"
    by (metis prod.exhaust)
  obtain Mod2 os2 w2 where run2: "run_pwrite_client (pass ?Mod1) os1 w1 = (Mod2, os2, w2)"
    by (metis prod.exhaust)
  note r = emit_valid [OF run1 run2, of malloc_ok error_message]
  obtain evs1 where f1: "forwarded ?os w os1 w1 evs1"
    using run_pwrite_client_forwarded [OF cbs(1) cbs(2) run1] by (rule exE)
  have cbs1: "write_cb_p os1 \<noteq> None" "pwrite_cb_p os1 \<noteq> None"
    using f1 cbs by (simp_all add: forwarded_def)
  obtain evs2 where f2: "forwarded os1 w1 os2 w2 evs2"
    using run_pwrite_client_forwarded [OF cbs1 run2] by (rule exE)
  have f12: "forwarded ?os w os2 w2 (evs1 @ evs2)"
    using f1 f2 by (rule forwarded_trans)
  show ?thesis
  proof (cases cannot_emit)
    case True
    have "calls (sink_after (bpf_linker_emit_to_pwrite_stream malloc_ok (Some TM) (Some Mod)
        codegen (Some wcb) (Some pwcb) scb fcb w error_message)) =
       calls w @ evs1 @
         (if list_ex failed evs1 then []
          else case fcb of None \<Rightarrow> [] | Some f \<Rightarrow> [(FlushCall, fst (f (user w1)))])"
      using True r dtor_after_forwarded [OF f1] by simp
    moreover have "list_all is_data evs1" "silent_once_latched False evs1"
      using f1 cbs(3) by (simp_all add: forwarded_def)
    moreover have "ret (bpf_linker_emit_to_pwrite_stream malloc_ok (Some TM) (Some Mod)
        codegen (Some wcb) (Some pwcb) scb fcb w error_message) = 1"
      using True r by simp
    ultimately show ?thesis by blast
  next
    case False
    have "calls (sink_after (bpf_linker_emit_to_pwrite_stream malloc_ok (Some TM) (Some Mod)
        codegen (Some wcb) (Some pwcb) scb fcb w error_message)) =
       calls w @ (evs1 @ evs2) @
         (if list_ex failed (evs1 @ evs2) then []
          else case fcb of None \<Rightarrow> [] | Some f \<Rightarrow> [(FlushCall, fst (f (user w2)))])"
      using False r dtor_after_forwarded [OF f12] by simp
    moreover have "list_all is_data (evs1 @ evs2)" "silent_once_latched False (evs1 @ evs2)"
      using f12 cbs(3) by (simp_all add: forwarded_def)
    moreover have "list_ex failed (evs1 @ evs2) \<longrightarrow>
        ret (bpf_linker_emit_to_pwrite_stream malloc_ok (Some TM) (Some Mod)
          codegen (Some wcb) (Some pwcb) scb fcb w error_message) = 1"
      using False r f12 cbs(3) by (simp add: forwarded_def)
    ultimately show ?thesis by blast
  qed
qed

lemma print_ir_is_write_bitcode:
  "bpf_linker_print_ir_to_stream emitter M write_cb flush_cb w =
   bpf_linker_write_bitcode_to_stream emitter M write_cb flush_cb w"
  by (simp add: bpf_linker_print_ir_to_stream_def bpf_linker_write_bitcode_to_stream_def)

lemma bitcode_invalid:
  assumes "M = None \<or> write_cb = None"
  shows "bpf_linker_write_bitcode_to_stream emitter M write_cb flush_cb w =
         \<lparr>o_ret = 1, o_sink_after = w, o_stream_after = None\<rparr>"
  using assms by (auto simp: bpf_linker_write_bitcode_to_stream_def split: option.splits)

lemma bitcode_valid:
  assumes "run_ostream_client (emitter Mod) (RustRawOStream (Some wcb) fcb) w = (u, os1, w1)"
  shows "bpf_linker_write_bitcode_to_stream emitter (Some Mod) (Some wcb) fcb w =
         \<lparr>o_ret = (if had_error_o os1 then 1 else 0),
          o_sink_after = snd (RustRawOStream_dtor os1 w1),
          o_stream_after = Some (fst (RustRawOStream_dtor os1 w1))\<rparr>"
  using assms
  by (simp add: bpf_linker_write_bitcode_to_stream_def Let_def raw_ostream_flush_def
      o_had_error_def split: prod.splits)

lemma bitcode_log:
  fixes w :: "('p, 'u) sink"
  shows "\<exists>body u.
     calls (o_sink_after (bpf_linker_write_bitcode_to_stream emitter (Some Mod) (Some wcb) fcb w)) =
       calls w @ body @
         (if list_ex failed body then []
          else case fcb of None \<Rightarrow> [] | Some f \<Rightarrow> [(FlushCall, fst (f u))]) \<and>
     list_all is_data body \<and> silent_once_latched False body \<and>
     o_ret (bpf_linker_write_bitcode_to_stream emitter (Some Mod) (Some wcb) fcb w) =
       (if list_ex failed body then 1 else 0)"
proof -
  let ?os = "RustRawOStream (Some wcb) fcb :: ('p, 'u) RustRawOStream"
  have cbs: "write_cb_o ?os \<noteq> None" "\<not> had_error_o ?os"
    by (simp_all add: RustRawOStream_def)
  obtain u os1 w1 where run1: "run_ostream_client (emitter Mod) ?os w = (u, os1, w1)"
    by (metis prod.exhaust)
  note r = bitcode_valid [where emitter = emitter and Mod = Mod, OF run1]
  obtain evs1 where f1: "o_forwarded ?os w os1 w1 evs1"
    using run_ostream_client_forwarded [OF cbs(1) run1] by (rule exE)
  have "calls (o_sink_after (bpf_linker_write_bitcode_to_stream emitter (Some Mod) (Some wcb)
        fcb w)) =
       calls w @ evs1 @
         (if list_ex failed evs1 then []
          else case fcb of None \<Rightarrow> [] | Some f \<Rightarrow> [(FlushCall, fst (f (user w1)))])"
    using r o_dtor_after_forwarded [OF f1] by simp
  moreover have "list_all is_data evs1" "silent_once_latched False evs1"
    using f1 cbs(2) by (simp_all add: o_forwarded_def)
  moreover have "o_ret (bpf_linker_write_bitcode_to_stream emitter (Some Mod) (Some wcb) fcb w) =
       (if list_ex failed evs1 then 1 else 0)"
    using r f1 cbs(2) by (simp add: o_forwarded_def)
  ultimately show ?thesis by blast
qed

section \<open>The sample calls, evaluated\<close>

lemmas emit_eval_simps =
  emit_sample_def bpf_linker_emit_to_pwrite_stream_def assign_message_def dup_cstr_def
  bpf_target_def unsupported_target_def object_passes_def some_module_def setDataLayout_def
  RustPwriteStream_def RustPwriteStream_dtor_def raw_ostream_flush_def had_error_def
  current_pos_def write_impl_def pwrite_impl_def invoke_def empty_sink_def
  vec_write_def vec_pwrite_def vec_flush_def failing_write_def failing_flush_def Let_def

lemmas bitcode_eval_simps =
  bitcode_sample_def print_ir_sample_def bpf_linker_write_bitcode_to_stream_def
  bpf_linker_print_ir_to_stream_def bitcode_writer_def some_module_def
  RustRawOStream_def RustRawOStream_dtor_def raw_ostream_flush_def o_had_error_def
  o_current_pos_def o_write_impl_def invoke_def empty_sink_def
  vec_write_def vec_flush_def failing_write_def failing_flush_def Let_def

lemma emit_sample_good:
  "emit_sample bpf_target vec_write vec_flush =
     \<lparr>ret = 0, message_after = Some None,
      module_after =
        Some \<lparr>DataLayout = ''e-m:e-p:64:64-i64:64-i128:128-n32:64-S128'', contents = ()\<rparr>,
      sink_after =
        \<lparr>user = ''sizebody'',
         calls = [(WriteCall ''head'' 4, 0), (WriteCall ''body'' 4, 0),
                  (PwriteCall ''size'' 4 0, 0), (FlushCall, 0)]\<rparr>,
      stream_after =
        Some \<lparr>write_cb_p = Some vec_write, pwrite_cb_p = Some vec_pwrite, seek_cb_p = None,
              flush_cb_p = Some vec_flush, pos_p = 8, had_error_p = False\<rparr>\<rparr>"
  by (simp add: emit_eval_simps)

lemma emit_sample_write_fails:
  "emit_sample bpf_target failing_write vec_flush =
     \<lparr>ret = 1, message_after = Some (Some ''error while writing to Rust pwrite stream''),
      module_after =
        Some \<lparr>DataLayout = ''e-m:e-p:64:64-i64:64-i128:128-n32:64-S128'', contents = ()\<rparr>,
      sink_after = \<lparr>user = [], calls = [(WriteCall ''head'' 4, 1)]\<rparr>,
      stream_after =
        Some \<lparr>write_cb_p = Some failing_write, pwrite_cb_p = Some vec_pwrite, seek_cb_p = None,
              flush_cb_p = Some vec_flush, pos_p = 0, had_error_p = True\<rparr>\<rparr>"
  by (simp add: emit_eval_simps)

lemma emit_sample_flush_fails:
  "emit_sample bpf_target vec_write failing_flush =
     \<lparr>ret = 0, message_after = Some None,
      module_after =
        Some \<lparr>DataLayout = ''e-m:e-p:64:64-i64:64-i128:128-n32:64-S128'', contents = ()\<rparr>,
      sink_after =
        \<lparr>user = ''sizebody'',
         calls = [(WriteCall ''head'' 4, 0), (WriteCall ''body'' 4, 0),
                  (PwriteCall ''size'' 4 0, 0), (FlushCall, 1)]\<rparr>,
      stream_after =
        Some \<lparr>write_cb_p = Some vec_write, pwrite_cb_p = Some vec_pwrite, seek_cb_p = None,
              flush_cb_p = Some failing_flush, pos_p = 8, had_error_p = True\<rparr>\<rparr>"
  by (simp add: emit_eval_simps)

lemma emit_sample_unsupported:
  "emit_sample unsupported_target vec_write vec_flush =
     \<lparr>ret = 1, message_after = Some (Some ''TargetMachine can't emit a file of this type''),
      module_after =
        Some \<lparr>DataLayout = ''e-m:e-p:64:64-i64:64-i128:128-n32:64-S128'', contents = ()\<rparr>,
      sink_after = \<lparr>user = [], calls = [(FlushCall, 0)]\<rparr>,
      stream_after =
        Some \<lparr>write_cb_p = Some vec_write, pwrite_cb_p = Some vec_pwrite, seek_cb_p = None,
              flush_cb_p = Some vec_flush, pos_p = 0, had_error_p = False\<rparr>\<rparr>"
  by (simp add: emit_eval_simps)

lemma bitcode_sample_good:
  "bitcode_sample vec_write vec_flush =
     \<lparr>o_ret = 0,
      o_sink_after =
        \<lparr>user = ''BC0123456789'',
         calls = [(WriteCall ''BC'' 2, 0), (WriteCall ''0123456789'' 10, 0), (FlushCall, 0)]\<rparr>,
      o_stream_after =
        Some \<lparr>write_cb_o = Some vec_write, flush_cb_o = Some vec_flush, pos_o = 12,
              had_error_o = False\<rparr>\<rparr>"
  by (simp add: bitcode_eval_simps)

lemma print_ir_sample_good:
  "print_ir_sample vec_write vec_flush =
     \<lparr>o_ret = 0,
      o_sink_after =
        \<lparr>user = ''BC0123456789'',
         calls = [(WriteCall ''BC'' 2, 0), (WriteCall ''0123456789'' 10, 0), (FlushCall, 0)]\<rparr>,
      o_stream_after =
        Some \<lparr>write_cb_o = Some vec_write, flush_cb_o = Some vec_flush, pos_o = 12,
              had_error_o = False\<rparr>\<rparr>"
  by (simp add: bitcode_eval_simps)

lemma bitcode_sample_write_fails:
  "bitcode_sample failing_write vec_flush =
     \<lparr>o_ret = 1, o_sink_after = \<lparr>user = [], calls = [(WriteCall ''BC'' 2, 1)]\<rparr>,
      o_stream_after =
        Some \<lparr>write_cb_o = Some failing_write, flush_cb_o = Some vec_flush, pos_o = 0,
              had_error_o = True\<rparr>\<rparr>"
  by (simp add: bitcode_eval_simps)

lemma print_ir_sample_write_fails:
  "print_ir_sample failing_write vec_flush =
     \<lparr>o_ret = 1, o_sink_after = \<lparr>user = [], calls = [(WriteCall ''BC'' 2, 1)]\<rparr>,
      o_stream_after =
        Some \<lparr>write_cb_o = Some failing_write, flush_cb_o = Some vec_flush, pos_o = 0,
              had_error_o = True\<rparr>\<rparr>"
  by (simp add: bitcode_eval_simps)

lemma bitcode_sample_flush_fails:
  "bitcode_sample vec_write failing_flush =
     \<lparr>o_ret = 0,
      o_sink_after =
        \<lparr>user = ''BC0123456789'',
         calls = [(WriteCall ''BC'' 2, 0), (WriteCall ''0123456789'' 10, 0), (FlushCall, 1)]\<rparr>,
      o_stream_after =
        Some \<lparr>write_cb_o = Some vec_write, flush_cb_o = Some failing_flush, pos_o = 12,
              had_error_o = True\<rparr>\<rparr>"
  by (simp add: bitcode_eval_simps)

section \<open>Validation\<close>

text \<open>
  C3. A call of the random-access entry point with a null target machine, a null module,
  a null write callback or a null offset-write callback returns 1 at once: the sink is as
  before (no callback was invoked), no stream was constructed, the module is untouched,
  and the message, when asked for, is the invalid-arguments text. The two append-only
  entry points return 1 in the same way when the module or the write callback is null.
  Nothing else is mandatory: with these present a stream is constructed, whatever the
  seek and flush callbacks are, and the append-only path has no offset-write callback
  at all.
\<close>

theorem missing_callback_or_handle_is_rejected:
  "(T = None \<or> M = None \<or> write_cb = None \<or> pwrite_cb = None \<longrightarrow>
      bpf_linker_emit_to_pwrite_stream malloc_ok T M codegen write_cb pwrite_cb seek_cb
        flush_cb w error_message =
      \<lparr>ret = 1,
       message_after = assign_message error_message
         (dup_cstr malloc_ok
            (Some ''invalid arguments: TM/Mod/write_cb/pwrite_cb must be non-null'')),
       module_after = M, sink_after = w, stream_after = None\<rparr>) \<and>
   (T \<noteq> None \<and> M \<noteq> None \<and> write_cb \<noteq> None \<and> pwrite_cb \<noteq> None \<longrightarrow>
      stream_after (bpf_linker_emit_to_pwrite_stream malloc_ok T M codegen write_cb pwrite_cb
        seek_cb flush_cb w error_message) \<noteq> None) \<and>
   (BM = None \<or> o_write_cb = None \<longrightarrow>
      bpf_linker_write_bitcode_to_stream emitter BM o_write_cb o_flush_cb v =
        \<lparr>o_ret = 1, o_sink_after = v, o_stream_after = None\<rparr> \<and>
      bpf_linker_print_ir_to_stream emitter BM o_write_cb o_flush_cb v =
        \<lparr>o_ret = 1, o_sink_after = v, o_stream_after = None\<rparr>) \<and>
   (BM \<noteq> None \<and> o_write_cb \<noteq> None \<longrightarrow>
      o_stream_after (bpf_linker_write_bitcode_to_stream emitter BM o_write_cb o_flush_cb v)
        \<noteq> None \<and>
      o_stream_after (bpf_linker_print_ir_to_stream emitter BM o_write_cb o_flush_cb v)
        \<noteq> None)"
proof (intro conjI impI)
  assume "T = None \<or> M = None \<or> write_cb = None \<or> pwrite_cb = None"
  then show "bpf_linker_emit_to_pwrite_stream malloc_ok T M codegen write_cb pwrite_cb seek_cb
        flush_cb w error_message =
      \<lparr>ret = 1,
       message_after = assign_message error_message
         (dup_cstr malloc_ok
            (Some ''invalid arguments: TM/Mod/write_cb/pwrite_cb must be non-null'')),
       module_after = M, sink_after = w, stream_after = None\<rparr>"
    by (rule emit_invalid)
next
  assume "T \<noteq> None \<and> M \<noteq> None \<and> write_cb \<noteq> None \<and> pwrite_cb \<noteq> None"
  then show "stream_after (bpf_linker_emit_to_pwrite_stream malloc_ok T M codegen write_cb
        pwrite_cb seek_cb flush_cb w error_message) \<noteq> None"
    by (auto simp: bpf_linker_emit_to_pwrite_stream_def Let_def split: prod.splits)
next
  assume a: "BM = None \<or> o_write_cb = None"
  then show "bpf_linker_write_bitcode_to_stream emitter BM o_write_cb o_flush_cb v =
        \<lparr>o_ret = 1, o_sink_after = v, o_stream_after = None\<rparr>"
    by (rule bitcode_invalid)
  from a show "bpf_linker_print_ir_to_stream emitter BM o_write_cb o_flush_cb v =
        \<lparr>o_ret = 1, o_sink_after = v, o_stream_after = None\<rparr>"
    by (simp only: print_ir_is_write_bitcode bitcode_invalid)
next
  assume b: "BM \<noteq> None \<and> o_write_cb \<noteq> None"
  then show "o_stream_after (bpf_linker_write_bitcode_to_stream emitter BM o_write_cb
        o_flush_cb v) \<noteq> None"
    by (auto simp: bpf_linker_write_bitcode_to_stream_def Let_def split: prod.splits)
  from b show "o_stream_after (bpf_linker_print_ir_to_stream emitter BM o_write_cb
        o_flush_cb v) \<noteq> None"
    by (auto simp: bpf_linker_print_ir_to_stream_def Let_def split: prod.splits)
qed

theorem missing_callback_or_handle_is_rejected_witness:
  "bpf_linker_emit_to_pwrite_stream True (Some bpf_target) (Some some_module) LLVMObjectFile
     (Some vec_write) None (Some vec_seek) (Some vec_flush) empty_sink (Some None) =
     \<lparr>ret = 1,
      message_after =
        Some (Some ''invalid arguments: TM/Mod/write_cb/pwrite_cb must be non-null''),
      module_after = Some some_module, sink_after = empty_sink, stream_after = None\<rparr> \<and>
   stream_after (bpf_linker_emit_to_pwrite_stream True (Some bpf_target) (Some some_module)
     LLVMObjectFile (Some vec_write) (Some vec_pwrite) None None empty_sink None) \<noteq> None \<and>
   bpf_linker_write_bitcode_to_stream bitcode_writer (Some some_module) None (Some vec_flush)
     empty_sink = \<lparr>o_ret = 1, o_sink_after = empty_sink, o_stream_after = None\<rparr> \<and>
   bpf_linker_print_ir_to_stream bitcode_writer None (Some vec_write) (Some vec_flush)
     empty_sink = \<lparr>o_ret = 1, o_sink_after = empty_sink, o_stream_after = None\<rparr> \<and>
   o_stream_after (bpf_linker_write_bitcode_to_stream bitcode_writer (Some some_module)
     (Some vec_write) None empty_sink) \<noteq> None \<and>
   o_stream_after (bpf_linker_print_ir_to_stream bitcode_writer (Some some_module)
     (Some vec_write) None empty_sink) \<noteq> None"
  using missing_callback_or_handle_is_rejected
      [of "Some bpf_target" "Some some_module" "Some vec_write" None True LLVMObjectFile
        "Some vec_seek" "Some vec_flush" empty_sink "Some None"
        "Some some_module" None bitcode_writer "Some vec_flush" empty_sink]
    missing_callback_or_handle_is_rejected
      [of "Some bpf_target" "Some some_module" "Some vec_write" "Some vec_pwrite" True
        LLVMObjectFile None None empty_sink None
        None "Some vec_write" bitcode_writer "Some vec_flush" empty_sink]
    missing_callback_or_handle_is_rejected
      [of "Some bpf_target" "Some some_module" "Some vec_write" "Some vec_pwrite" True
        LLVMObjectFile None None empty_sink None
        "Some some_module" "Some vec_write" bitcode_writer None empty_sink]
  by (simp add: assign_message_def dup_cstr_def)

section \<open>A file type the target cannot emit\<close>

text \<open>
  C5, as amended. When \<open>addPassesToEmitFile\<close> reports that the file type cannot be
  emitted, having left the stream and the sink as they were, the random-access entry
  point returns 1 and stores the message \<open>TargetMachine can't emit a file of this type\<close>
  (when a message pointer was passed). No write, offset-write or reposition callback is
  invoked. The flush callback, when one was supplied, is invoked exactly once: the early
  return destroys the stream, and the destructor of a stream without error flushes.
\<close>

theorem unsupported_file_type_flushes_only:
  assumes "run_pwrite_client
             (addPassesToEmitFile TM
                (case codegen of LLVMAssemblyFile \<Rightarrow> AssemblyFile | _ \<Rightarrow> ObjectFile))
             (RustPwriteStream (Some wcb) (Some pwcb) scb fcb) w =
           ((True, pass), RustPwriteStream (Some wcb) (Some pwcb) scb fcb, w)"
  shows "ret (bpf_linker_emit_to_pwrite_stream malloc_ok (Some TM) (Some Mod) codegen
           (Some wcb) (Some pwcb) scb fcb w error_message) = 1 \<and>
         message_after (bpf_linker_emit_to_pwrite_stream malloc_ok (Some TM) (Some Mod) codegen
           (Some wcb) (Some pwcb) scb fcb w error_message) =
           assign_message error_message
             (dup_cstr malloc_ok (Some ''TargetMachine can't emit a file of this type'')) \<and>
         calls (sink_after (bpf_linker_emit_to_pwrite_stream malloc_ok (Some TM) (Some Mod)
           codegen (Some wcb) (Some pwcb) scb fcb w error_message)) =
           calls w @ (case fcb of None \<Rightarrow> [] | Some f \<Rightarrow> [(FlushCall, fst (f (user w)))])"
proof -
  let ?os = "RustPwriteStream (Some wcb) (Some pwcb) scb fcb"
  obtain Mod2 os2 w2 where run2:
    "run_pwrite_client (pass (setDataLayout (createDataLayout TM) Mod)) ?os w = (Mod2, os2, w2)"
    by (metis prod.exhaust)
  have "calls (snd (RustPwriteStream_dtor ?os w)) =
      calls w @ (case fcb of None \<Rightarrow> [] | Some f \<Rightarrow> [(FlushCall, fst (f (user w)))])"
    by (simp add: dtor_calls RustPwriteStream_def)
  then show ?thesis
    using emit_valid [OF assms run2, of malloc_ok error_message] by simp
qed

theorem unsupported_file_type_flushes_only_witness:
  "ret (emit_sample unsupported_target vec_write vec_flush) = 1 \<and>
   message_after (emit_sample unsupported_target vec_write vec_flush) =
     Some (Some ''TargetMachine can't emit a file of this type'') \<and>
   calls (sink_after (emit_sample unsupported_target vec_write vec_flush)) = [(FlushCall, 0)]"
proof -
  have h: "run_pwrite_client
             (addPassesToEmitFile unsupported_target
                (case LLVMObjectFile of LLVMAssemblyFile \<Rightarrow> AssemblyFile | _ \<Rightarrow> ObjectFile))
             (RustPwriteStream (Some vec_write) (Some vec_pwrite) None (Some vec_flush))
             empty_sink =
           ((True, (\<lambda>m. Return m)),
            RustPwriteStream (Some vec_write) (Some vec_pwrite) None (Some vec_flush), empty_sink)"
    by (simp add: unsupported_target_def)
  show ?thesis
    using unsupported_file_type_flushes_only [OF h, of True some_module "Some (Some ''stale'')"]
    by (simp add: emit_sample_def assign_message_def dup_cstr_def vec_flush_def empty_sink_def)
qed

text \<open>
  C5 as stated fails: with a flush callback supplied, one callback is invoked during the
  call that reports the unsupported file type.
\<close>

theorem unsupported_file_type_counterexample:
  "ret (emit_sample unsupported_target vec_write vec_flush) = 1 \<and>
   new_calls empty_sink (sink_after (emit_sample unsupported_target vec_write vec_flush)) =
     [(FlushCall, 0)]"
  by (simp add: emit_sample_unsupported new_calls_def empty_sink_def)

section \<open>A failing flush\<close>

text \<open>
  C2 does not hold of the code. The flush callback runs in the destructor only, and the
  destructor runs after the return value has been computed from \<open>had_error()\<close>. With a
  target that emits, write and offset-write callbacks that return 0 and a flush callback
  that returns 1, the flag of the stream is set, yet the random-access entry point
  returns 0 and leaves the message null; the bitcode and IR entry points return 0 in the
  same way.
\<close>

theorem flush_failure_is_not_reported:
  "ret (emit_sample bpf_target vec_write failing_flush) = 0 \<and>
   message_after (emit_sample bpf_target vec_write failing_flush) = Some None \<and>
   new_calls empty_sink (sink_after (emit_sample bpf_target vec_write failing_flush)) =
     [(WriteCall ''head'' 4, 0), (WriteCall ''body'' 4, 0), (PwriteCall ''size'' 4 0, 0),
      (FlushCall, 1)] \<and>
   map_option had_error_p (stream_after (emit_sample bpf_target vec_write failing_flush)) =
     Some True \<and>
   o_ret (bitcode_sample vec_write failing_flush) = 0 \<and>
   new_calls empty_sink (o_sink_after (bitcode_sample vec_write failing_flush)) =
     [(WriteCall ''BC'' 2, 0), (WriteCall ''0123456789'' 10, 0), (FlushCall, 1)] \<and>
   map_option had_error_o (o_stream_after (bitcode_sample vec_write failing_flush)) = Some True"
  by (simp add: emit_sample_flush_fails bitcode_sample_flush_fails new_calls_def empty_sink_def)

section \<open>How often the flush callback runs\<close>

lemma is_data_not_flush: "is_data e \<Longrightarrow> \<not> is_flush e"
  by (cases e) (auto simp: is_data_def is_flush_def split: callback_call.splits)

lemma flush_event: "is_flush (FlushCall, rc)" "\<not> is_data (FlushCall, rc)"
  by (simp_all add: is_flush_def is_data_def)

lemma filter_flush_data: "list_all is_data body \<Longrightarrow> filter is_flush body = []"
  by (induction body) (simp_all add: is_data_not_flush)

lemma filter_data_data: "list_all is_data body \<Longrightarrow> filter is_data body = body"
  by (induction body) simp_all

lemma flush_only_while_clear_data:
  "list_all is_data body \<Longrightarrow>
   flush_only_while_clear b (body @ fl) = flush_only_while_clear (b \<or> list_ex failed body) fl"
  by (induction body arbitrary: b) (simp_all add: is_data_not_flush)

lemma log_flush_discipline:
  assumes "list_all is_data body"
    and "evs = body @ (if list_ex failed body then [] else [(FlushCall, rc)])"
  shows "flushes evs \<le> 1 \<and>
         (\<not> list_ex failed (filter is_data evs) \<longrightarrow> flushes evs = 1) \<and>
         (list_ex failed (filter is_data evs) \<longrightarrow> flushes evs = 0) \<and>
         flush_only_while_clear False evs"
proof (cases "list_ex failed body")
  case True
  then have evs: "evs = body" using assms(2) by simp
  have "flushes evs = 0" using assms(1) evs by (simp add: flushes_def filter_flush_data)
  moreover have "filter is_data evs = body" using assms(1) evs by (simp add: filter_data_data)
  moreover have "flush_only_while_clear False evs"
    using flush_only_while_clear_data [OF assms(1), of False "[]"] evs by simp
  ultimately show ?thesis using True by simp
next
  case False
  then have evs: "evs = body @ [(FlushCall, rc)]" using assms(2) by simp
  have "flushes evs = 1"
    using assms(1) evs by (simp add: flushes_def filter_flush_data flush_event)
  moreover have "filter is_data evs = body"
    using assms(1) evs by (simp add: filter_data_data flush_event)
  moreover have "flush_only_while_clear False evs"
    using flush_only_while_clear_data [OF assms(1), of False "[(FlushCall, rc)]"] evs False
    by (simp add: flush_event)
  ultimately show ?thesis using False by simp
qed

text \<open>
  C8. Take any call of an entry point that passes validation and was given a flush
  callback. Among the callback invocations of that call the flush callback occurs at most
  once; it occurs exactly once when no write or offset-write callback returned non-zero,
  not at all when one did, and never after an invocation that returned non-zero.
\<close>

theorem flush_callback_once_unless_latched:
  fixes w :: "('p, 'u) sink" and TM :: "('p, 'c) TargetMachine" and v v' :: "('q, 't) sink"
  shows
  "(flushes (new_calls w (sink_after (bpf_linker_emit_to_pwrite_stream malloc_ok (Some TM)
       (Some Mod) codegen (Some wcb) (Some pwcb) scb (Some fcb) w error_message))) \<le> 1 \<and>
    (\<not> list_ex failed (filter is_data (new_calls w (sink_after
         (bpf_linker_emit_to_pwrite_stream malloc_ok (Some TM) (Some Mod) codegen (Some wcb)
            (Some pwcb) scb (Some fcb) w error_message)))) \<longrightarrow>
       flushes (new_calls w (sink_after (bpf_linker_emit_to_pwrite_stream malloc_ok (Some TM)
         (Some Mod) codegen (Some wcb) (Some pwcb) scb (Some fcb) w error_message))) = 1) \<and>
    (list_ex failed (filter is_data (new_calls w (sink_after
         (bpf_linker_emit_to_pwrite_stream malloc_ok (Some TM) (Some Mod) codegen (Some wcb)
            (Some pwcb) scb (Some fcb) w error_message)))) \<longrightarrow>
       flushes (new_calls w (sink_after (bpf_linker_emit_to_pwrite_stream malloc_ok (Some TM)
         (Some Mod) codegen (Some wcb) (Some pwcb) scb (Some fcb) w error_message))) = 0) \<and>
    flush_only_while_clear False (new_calls w (sink_after (bpf_linker_emit_to_pwrite_stream
       malloc_ok (Some TM) (Some Mod) codegen (Some wcb) (Some pwcb) scb (Some fcb) w
       error_message)))) \<and>
   (flushes (new_calls v (o_sink_after (bpf_linker_write_bitcode_to_stream emitter (Some BMod)
       (Some owcb) (Some ofcb) v))) \<le> 1 \<and>
    (\<not> list_ex failed (filter is_data (new_calls v (o_sink_after
         (bpf_linker_write_bitcode_to_stream emitter (Some BMod) (Some owcb) (Some ofcb) v)))) \<longrightarrow>
       flushes (new_calls v (o_sink_after (bpf_linker_write_bitcode_to_stream emitter
         (Some BMod) (Some owcb) (Some ofcb) v))) = 1) \<and>
    (list_ex failed (filter is_data (new_calls v (o_sink_after
         (bpf_linker_write_bitcode_to_stream emitter (Some BMod) (Some owcb) (Some ofcb) v)))) \<longrightarrow>
       flushes (new_calls v (o_sink_after (bpf_linker_write_bitcode_to_stream emitter
         (Some BMod) (Some owcb) (Some ofcb) v))) = 0) \<and>
    flush_only_while_clear False (new_calls v (o_sink_after
       (bpf_linker_write_bitcode_to_stream emitter (Some BMod) (Some owcb) (Some ofcb) v)))) \<and>
   (flushes (new_calls v' (o_sink_after (bpf_linker_print_ir_to_stream printer (Some PMod)
       (Some owcb') (Some ofcb') v'))) \<le> 1 \<and>
    (\<not> list_ex failed (filter is_data (new_calls v' (o_sink_after
         (bpf_linker_print_ir_to_stream printer (Some PMod) (Some owcb') (Some ofcb') v')))) \<longrightarrow>
       flushes (new_calls v' (o_sink_after (bpf_linker_print_ir_to_stream printer
         (Some PMod) (Some owcb') (Some ofcb') v'))) = 1) \<and>
    (list_ex failed (filter is_data (new_calls v' (o_sink_after
         (bpf_linker_print_ir_to_stream printer (Some PMod) (Some owcb') (Some ofcb') v')))) \<longrightarrow>
       flushes (new_calls v' (o_sink_after (bpf_linker_print_ir_to_stream printer
         (Some PMod) (Some owcb') (Some ofcb') v'))) = 0) \<and>
    flush_only_while_clear False (new_calls v' (o_sink_after
       (bpf_linker_print_ir_to_stream printer (Some PMod) (Some owcb') (Some ofcb') v'))))"
proof (intro conjI)
  let ?r = "bpf_linker_emit_to_pwrite_stream malloc_ok (Some TM) (Some Mod) codegen (Some wcb)
       (Some pwcb) scb (Some fcb) w error_message"
  obtain body u where all: "calls (sink_after ?r) =
       calls w @ body @
         (if list_ex failed body then []
          else case Some fcb of None \<Rightarrow> [] | Some f \<Rightarrow> [(FlushCall, fst (f u))]) \<and>
     list_all is_data body \<and> silent_once_latched False body \<and>
     (list_ex failed body \<longrightarrow> ret ?r = 1)"
    using emit_log [of malloc_ok TM Mod codegen wcb pwcb scb "Some fcb" w error_message]
    by blast
  from all have log: "calls (sink_after ?r) =
       calls w @ body @ (if list_ex failed body then [] else [(FlushCall, fst (fcb u))])"
    by simp
  from all have data: "list_all is_data body" by simp
  have "new_calls w (sink_after ?r) =
      body @ (if list_ex failed body then [] else [(FlushCall, fst (fcb u))])"
    using log by (simp add: new_calls_def)
  note d = log_flush_discipline [OF data this]
  from d show "flushes (new_calls w (sink_after ?r)) \<le> 1" by blast
  from d show "\<not> list_ex failed (filter is_data (new_calls w (sink_after ?r))) \<longrightarrow>
       flushes (new_calls w (sink_after ?r)) = 1" by blast
  from d show "list_ex failed (filter is_data (new_calls w (sink_after ?r))) \<longrightarrow>
       flushes (new_calls w (sink_after ?r)) = 0" by blast
  from d show "flush_only_while_clear False (new_calls w (sink_after ?r))" by blast
next
  let ?b = "bpf_linker_write_bitcode_to_stream emitter (Some BMod) (Some owcb) (Some ofcb) v"
  obtain body u where all: "calls (o_sink_after ?b) =
       calls v @ body @
         (if list_ex failed body then []
          else case Some ofcb of None \<Rightarrow> [] | Some f \<Rightarrow> [(FlushCall, fst (f u))]) \<and>
     list_all is_data body \<and> silent_once_latched False body \<and>
     o_ret ?b = (if list_ex failed body then 1 else 0)"
    using bitcode_log [of emitter BMod owcb "Some ofcb" v] by blast
  from all have log: "calls (o_sink_after ?b) =
       calls v @ body @ (if list_ex failed body then [] else [(FlushCall, fst (ofcb u))])"
    by simp
  from all have data: "list_all is_data body" by simp
  have "new_calls v (o_sink_after ?b) =
      body @ (if list_ex failed body then [] else [(FlushCall, fst (ofcb u))])"
    using log by (simp add: new_calls_def)
  note d = log_flush_discipline [OF data this]
  from d show "flushes (new_calls v (o_sink_after ?b)) \<le> 1" by blast
  from d show "\<not> list_ex failed (filter is_data (new_calls v (o_sink_after ?b))) \<longrightarrow>
       flushes (new_calls v (o_sink_after ?b)) = 1" by blast
  from d show "list_ex failed (filter is_data (new_calls v (o_sink_after ?b))) \<longrightarrow>
       flushes (new_calls v (o_sink_after ?b)) = 0" by blast
  from d show "flush_only_while_clear False (new_calls v (o_sink_after ?b))" by blast
next
  let ?b = "bpf_linker_print_ir_to_stream printer (Some PMod) (Some owcb') (Some ofcb') v'"
  obtain body u where all: "calls (o_sink_after ?b) =
       calls v' @ body @
         (if list_ex failed body then []
          else case Some ofcb' of None \<Rightarrow> [] | Some f \<Rightarrow> [(FlushCall, fst (f u))]) \<and>
     list_all is_data body \<and> silent_once_latched False body \<and>
     o_ret ?b = (if list_ex failed body then 1 else 0)"
    using bitcode_log [of printer PMod owcb' "Some ofcb'" v']
    unfolding print_ir_is_write_bitcode by blast
  from all have log: "calls (o_sink_after ?b) =
       calls v' @ body @ (if list_ex failed body then [] else [(FlushCall, fst (ofcb' u))])"
    by simp
  from all have data: "list_all is_data body" by simp
  have "new_calls v' (o_sink_after ?b) =
      body @ (if list_ex failed body then [] else [(FlushCall, fst (ofcb' u))])"
    using log by (simp add: new_calls_def)
  note d = log_flush_discipline [OF data this]
  from d show "flushes (new_calls v' (o_sink_after ?b)) \<le> 1" by blast
  from d show "\<not> list_ex failed (filter is_data (new_calls v' (o_sink_after ?b))) \<longrightarrow>
       flushes (new_calls v' (o_sink_after ?b)) = 1" by blast
  from d show "list_ex failed (filter is_data (new_calls v' (o_sink_after ?b))) \<longrightarrow>
       flushes (new_calls v' (o_sink_after ?b)) = 0" by blast
  from d show "flush_only_while_clear False (new_calls v' (o_sink_after ?b))" by blast
qed

theorem flush_callback_once_unless_latched_witness:
  "flushes (new_calls empty_sink (sink_after (emit_sample bpf_target vec_write vec_flush))) = 1 \<and>
   flush_only_while_clear False
     (new_calls empty_sink (sink_after (emit_sample bpf_target vec_write vec_flush))) \<and>
   flushes (new_calls empty_sink (sink_after (emit_sample bpf_target failing_write vec_flush))) = 0 \<and>
   flushes (new_calls empty_sink (o_sink_after (bitcode_sample vec_write vec_flush))) = 1 \<and>
   flushes (new_calls empty_sink (o_sink_after (print_ir_sample failing_write vec_flush))) = 0"
proof -
  note good = flush_callback_once_unless_latched
    [where malloc_ok = True and TM = bpf_target and Mod = some_module
       and codegen = LLVMObjectFile and wcb = vec_write and pwcb = vec_pwrite and scb = None
       and fcb = vec_flush and w = empty_sink and error_message = "Some (Some ''stale'')"
       and emitter = bitcode_writer and BMod = some_module and owcb = vec_write
       and ofcb = vec_flush and v = empty_sink
       and printer = bitcode_writer and PMod = some_module and owcb' = vec_write
       and ofcb' = vec_flush and v' = empty_sink,
     folded emit_sample_def bitcode_sample_def print_ir_sample_def]
  note bad = flush_callback_once_unless_latched
    [where malloc_ok = True and TM = bpf_target and Mod = some_module
       and codegen = LLVMObjectFile and wcb = failing_write and pwcb = vec_pwrite and scb = None
       and fcb = vec_flush and w = empty_sink and error_message = "Some (Some ''stale'')"
       and emitter = bitcode_writer and BMod = some_module and owcb = failing_write
       and ofcb = vec_flush and v = empty_sink
       and printer = bitcode_writer and PMod = some_module and owcb' = failing_write
       and ofcb' = vec_flush and v' = empty_sink,
     folded emit_sample_def bitcode_sample_def print_ir_sample_def]
  have g1: "\<not> list_ex failed (filter is_data
      (new_calls empty_sink (sink_after (emit_sample bpf_target vec_write vec_flush))))"
    by (simp add: emit_sample_good new_calls_def empty_sink_def is_data_def failed_def)
  have g2: "\<not> list_ex failed (filter is_data
      (new_calls empty_sink (o_sink_after (bitcode_sample vec_write vec_flush))))"
    by (simp add: bitcode_sample_good new_calls_def empty_sink_def is_data_def failed_def)
  have b1: "list_ex failed (filter is_data
      (new_calls empty_sink (sink_after (emit_sample bpf_target failing_write vec_flush))))"
    by (simp add: emit_sample_write_fails new_calls_def empty_sink_def is_data_def failed_def)
  have b2: "list_ex failed (filter is_data
      (new_calls empty_sink (o_sink_after (print_ir_sample failing_write vec_flush))))"
    by (simp add: print_ir_sample_write_fails new_calls_def empty_sink_def is_data_def
        failed_def)
  from good g1 g2 bad b1 b2 show ?thesis by blast
qed

section \<open>A callback that returns non-zero\<close>

lemma new_calls_same: "new_calls w w = []"
  by (simp add: new_calls_def)

lemma apply_op_failure_latches:
  assumes "is_write_op op" and "list_ex failed (new_calls w (snd (apply_op op (s, w))))"
  shows "had_error_p (fst (apply_op op (s, w)))"
proof (cases op)
  case (ForwardWrite Ptr Size)
  then show ?thesis
    using assms(2)
    by (auto simp: write_impl_def invoke_def new_calls_def failed_def
        split: if_splits option.splits prod.splits)
next
  case (OffsetWrite Ptr Size Offset)
  then show ?thesis
    using assms(2)
    by (auto simp: pwrite_impl_def invoke_def new_calls_def failed_def
        split: if_splits option.splits prod.splits)
next
  case (Reposition new_pos)
  then show ?thesis using assms(1) by simp
next
  case Teardown
  then show ?thesis using assms(1) by simp
qed

lemma o_write_failure_latches:
  assumes "list_ex failed (new_calls v (snd (o_write_impl Ptr Size os v)))"
  shows "had_error_o (fst (o_write_impl Ptr Size os v))"
  using assms
  by (auto simp: o_write_impl_def invoke_def new_calls_def failed_def
      split: if_splits option.splits prod.splits)

lemma emit_failure_reported:
  fixes w :: "('p, 'u) sink" and T :: "('p, 'c) TargetMachine option"
  assumes "list_ex failed (filter is_data (new_calls w (sink_after
     (bpf_linker_emit_to_pwrite_stream malloc_ok T M codegen write_cb pwrite_cb seek_cb flush_cb
        w error_message))))"
  shows "ret (bpf_linker_emit_to_pwrite_stream malloc_ok T M codegen write_cb pwrite_cb seek_cb
     flush_cb w error_message) = 1"
proof (cases "T = None \<or> M = None \<or> write_cb = None \<or> pwrite_cb = None")
  case True
  then show ?thesis by (simp add: emit_invalid)
next
  case False
  then obtain TM Mod wcb pwcb where args:
    "T = Some TM" "M = Some Mod" "write_cb = Some wcb" "pwrite_cb = Some pwcb" by auto
  let ?r = "bpf_linker_emit_to_pwrite_stream malloc_ok (Some TM) (Some Mod) codegen (Some wcb)
     (Some pwcb) seek_cb flush_cb w error_message"
  obtain body u where all: "calls (sink_after ?r) =
       calls w @ body @
         (if list_ex failed body then []
          else case flush_cb of None \<Rightarrow> [] | Some f \<Rightarrow> [(FlushCall, fst (f u))]) \<and>
     list_all is_data body \<and> silent_once_latched False body \<and>
     (list_ex failed body \<longrightarrow> ret ?r = 1)"
    using emit_log [of malloc_ok TM Mod codegen wcb pwcb seek_cb flush_cb w error_message]
    by blast
  then have "filter is_data (new_calls w (sink_after ?r)) = body"
    by (auto simp: new_calls_def filter_data_data flush_event split: option.splits)
  then show ?thesis using assms all args by simp
qed

lemma bitcode_failure_reported:
  fixes v :: "('p, 'u) sink"
  assumes "list_ex failed (filter is_data (new_calls v (o_sink_after
     (bpf_linker_write_bitcode_to_stream emitter M write_cb flush_cb v))))"
  shows "o_ret (bpf_linker_write_bitcode_to_stream emitter M write_cb flush_cb v) = 1"
proof (cases "M = None \<or> write_cb = None")
  case True
  then show ?thesis by (simp add: bitcode_invalid)
next
  case False
  then obtain Mod wcb where args: "M = Some Mod" "write_cb = Some wcb" by auto
  let ?b = "bpf_linker_write_bitcode_to_stream emitter (Some Mod) (Some wcb) flush_cb v"
  obtain body u where all: "calls (o_sink_after ?b) =
       calls v @ body @
         (if list_ex failed body then []
          else case flush_cb of None \<Rightarrow> [] | Some f \<Rightarrow> [(FlushCall, fst (f u))]) \<and>
     list_all is_data body \<and> silent_once_latched False body \<and>
     o_ret ?b = (if list_ex failed body then 1 else 0)"
    using bitcode_log [of emitter Mod wcb flush_cb v] by blast
  then have "filter is_data (new_calls v (o_sink_after ?b)) = body"
    by (auto simp: new_calls_def filter_data_data flush_event split: option.splits)
  then show ?thesis using assms all args by simp
qed

lemma seek_result:
  "fst (seek_append_pos new_pos s w) =
     (case seek_cb_p s of None \<Rightarrow> True | Some scb \<Rightarrow> fst (scb new_pos (user w)) = 0)"
  by (simp add: seek_append_pos_def invoke_def split: option.splits prod.splits)

lemma seek_keeps_flag:
  "had_error_p (fst (snd (seek_append_pos new_pos s w))) = had_error_p s"
  by (simp add: seek_append_pos_def invoke_def Let_def split: option.splits prod.splits)

text \<open>
  C7, as amended. Whenever the write or the offset-write callback of a stream returns
  non-zero, the error flag of the stream becomes set and every later forward write,
  offset-write and destructor flush on it returns without invoking a callback; and an
  entry point during whose call a write or offset-write callback returned non-zero
  returns 1. A non-zero status of the reposition callback does not set the flag:
  \<open>seek_append_pos\<close> reports it by returning false and leaves the flag as it was.
\<close>

theorem write_failure_latches_and_fails:
  fixes w :: "('p, 'u) sink" and T :: "('p, 'c) TargetMachine option"
  shows
  "(is_write_op op \<and> list_ex failed (new_calls w (snd (apply_op op (s, w)))) \<and>
      list_all (\<lambda>x. \<not> is_reposition x) ops \<longrightarrow>
      had_error_p (fst (apply_op op (s, w))) \<and>
      apply_ops ops (apply_op op (s, w)) = apply_op op (s, w)) \<and>
   (list_ex failed (new_calls w (snd (o_write_impl Ptr Size os w))) \<longrightarrow>
      had_error_o (fst (o_write_impl Ptr Size os w)) \<and>
      o_apply_ops o_ops (o_write_impl Ptr Size os w) = o_write_impl Ptr Size os w) \<and>
   (list_ex failed (filter is_data (new_calls w (sink_after
        (bpf_linker_emit_to_pwrite_stream malloc_ok T M codegen write_cb pwrite_cb seek_cb
           flush_cb w error_message)))) \<longrightarrow>
      ret (bpf_linker_emit_to_pwrite_stream malloc_ok T M codegen write_cb pwrite_cb seek_cb
        flush_cb w error_message) = 1) \<and>
   (list_ex failed (filter is_data (new_calls w (o_sink_after
        (bpf_linker_write_bitcode_to_stream emitter BM o_write_cb o_flush_cb w)))) \<longrightarrow>
      o_ret (bpf_linker_write_bitcode_to_stream emitter BM o_write_cb o_flush_cb w) = 1) \<and>
   (list_ex failed (filter is_data (new_calls w (o_sink_after
        (bpf_linker_print_ir_to_stream emitter BM o_write_cb o_flush_cb w)))) \<longrightarrow>
      o_ret (bpf_linker_print_ir_to_stream emitter BM o_write_cb o_flush_cb w) = 1) \<and>
   fst (seek_append_pos new_pos s w) =
     (case seek_cb_p s of None \<Rightarrow> True | Some scb \<Rightarrow> fst (scb new_pos (user w)) = 0) \<and>
   had_error_p (fst (snd (seek_append_pos new_pos s w))) = had_error_p s"
proof (intro conjI impI)
  assume a: "is_write_op op \<and> list_ex failed (new_calls w (snd (apply_op op (s, w)))) \<and>
      list_all (\<lambda>x. \<not> is_reposition x) ops"
  then show flag: "had_error_p (fst (apply_op op (s, w)))"
    using apply_op_failure_latches by blast
  have "\<forall>x\<in>set ops. \<not> is_reposition x" using a by (simp add: list_all_iff)
  then show "apply_ops ops (apply_op op (s, w)) = apply_op op (s, w)"
    using apply_ops_latched [OF flag, of ops "snd (apply_op op (s, w))"] by simp
next
  assume "list_ex failed (new_calls w (snd (o_write_impl Ptr Size os w)))"
  then show flag: "had_error_o (fst (o_write_impl Ptr Size os w))"
    by (rule o_write_failure_latches)
  show "o_apply_ops o_ops (o_write_impl Ptr Size os w) = o_write_impl Ptr Size os w"
    using o_apply_ops_latched [OF flag, of o_ops "snd (o_write_impl Ptr Size os w)"] by simp
next
  assume "list_ex failed (filter is_data (new_calls w (sink_after
        (bpf_linker_emit_to_pwrite_stream malloc_ok T M codegen write_cb pwrite_cb seek_cb
           flush_cb w error_message))))"
  then show "ret (bpf_linker_emit_to_pwrite_stream malloc_ok T M codegen write_cb pwrite_cb
        seek_cb flush_cb w error_message) = 1"
    by (rule emit_failure_reported)
next
  assume "list_ex failed (filter is_data (new_calls w (o_sink_after
        (bpf_linker_write_bitcode_to_stream emitter BM o_write_cb o_flush_cb w))))"
  then show "o_ret (bpf_linker_write_bitcode_to_stream emitter BM o_write_cb o_flush_cb w) = 1"
    by (rule bitcode_failure_reported)
next
  assume "list_ex failed (filter is_data (new_calls w (o_sink_after
        (bpf_linker_print_ir_to_stream emitter BM o_write_cb o_flush_cb w))))"
  then show "o_ret (bpf_linker_print_ir_to_stream emitter BM o_write_cb o_flush_cb w) = 1"
    unfolding print_ir_is_write_bitcode by (rule bitcode_failure_reported)
next
  show "fst (seek_append_pos new_pos s w) =
     (case seek_cb_p s of None \<Rightarrow> True | Some scb \<Rightarrow> fst (scb new_pos (user w)) = 0)"
    by (rule seek_result)
next
  show "had_error_p (fst (snd (seek_append_pos new_pos s w))) = had_error_p s"
    by (rule seek_keeps_flag)
qed

text \<open>
  C7 as stated fails for the reposition callback: it returns 1 here, \<open>seek_append_pos\<close>
  returns false, the flag stays clear and the next write is forwarded.
\<close>

theorem reposition_failure_counterexample:
  "calls (snd (snd (seek_append_pos 7 seek_failing_stream empty_sink))) = [(SeekCall 7, 1)] \<and>
   fst (seek_append_pos 7 seek_failing_stream empty_sink) = False \<and>
   had_error_p (fst (snd (seek_append_pos 7 seek_failing_stream empty_sink))) = False \<and>
   calls (snd (apply_ops [Reposition 7, ForwardWrite ''ab'' 2] (seek_failing_stream, empty_sink)))
     = [(SeekCall 7, 1), (WriteCall ''ab'' 2, 0)]"
  by (simp add: seek_failing_stream_def seek_append_pos_def RustPwriteStream_def invoke_def
      failing_seek_def empty_sink_def apply_ops_def write_impl_def vec_write_def)

theorem write_failure_latches_and_fails_witness:
  "had_error_p (fst (apply_op (ForwardWrite ''ab'' 2) (write_failing_stream, empty_sink))) \<and>
   apply_ops [OffsetWrite ''e'' 1 0, Teardown]
       (apply_op (ForwardWrite ''ab'' 2) (write_failing_stream, empty_sink)) =
     apply_op (ForwardWrite ''ab'' 2) (write_failing_stream, empty_sink) \<and>
   had_error_o (fst (o_write_impl ''ab'' 2
     (RustRawOStream (Some failing_write) (Some vec_flush)) empty_sink)) \<and>
   o_apply_ops [OForwardWrite ''cd'' 2, OTeardown]
       (o_write_impl ''ab'' 2 (RustRawOStream (Some failing_write) (Some vec_flush)) empty_sink) =
     o_write_impl ''ab'' 2 (RustRawOStream (Some failing_write) (Some vec_flush)) empty_sink \<and>
   ret (emit_sample bpf_target failing_write vec_flush) = 1 \<and>
   o_ret (bitcode_sample failing_write vec_flush) = 1 \<and>
   o_ret (print_ir_sample failing_write vec_flush) = 1 \<and>
   fst (seek_append_pos 7 write_failing_stream empty_sink) = True \<and>
   had_error_p (fst (snd (seek_append_pos 7 write_failing_stream empty_sink))) = False"
proof -
  note inst = write_failure_latches_and_fails
    [where op = "ForwardWrite ''ab'' 2" and s = write_failing_stream and w = empty_sink
       and ops = "[OffsetWrite ''e'' 1 0, Teardown]"
       and Ptr = "''ab''" and Size = 2
       and os = "RustRawOStream (Some failing_write) (Some vec_flush)"
       and o_ops = "[OForwardWrite ''cd'' 2, OTeardown]"
       and malloc_ok = True and T = "Some bpf_target" and M = "Some some_module"
       and codegen = LLVMObjectFile and write_cb = "Some failing_write"
       and pwrite_cb = "Some vec_pwrite" and seek_cb = None and flush_cb = "Some vec_flush"
       and error_message = "Some (Some ''stale'')"
       and emitter = bitcode_writer and BM = "Some some_module"
       and o_write_cb = "Some failing_write" and o_flush_cb = "Some vec_flush"
       and new_pos = 7,
     folded emit_sample_def bitcode_sample_def print_ir_sample_def]
  have h1: "is_write_op (ForwardWrite ''ab'' 2 :: string stream_op) \<and>
      list_ex failed (new_calls empty_sink
        (snd (apply_op (ForwardWrite ''ab'' 2) (write_failing_stream, empty_sink)))) \<and>
      list_all (\<lambda>x. \<not> is_reposition x) [OffsetWrite ''e'' 1 0, Teardown :: string stream_op]"
    by (simp add: write_failing_stream_def write_impl_def RustPwriteStream_def invoke_def
        failing_write_def empty_sink_def new_calls_def failed_def)
  have h2: "list_ex failed (new_calls empty_sink (snd (o_write_impl ''ab'' 2
      (RustRawOStream (Some failing_write) (Some vec_flush)) empty_sink)))"
    by (simp add: o_write_impl_def RustRawOStream_def invoke_def failing_write_def
        empty_sink_def new_calls_def failed_def)
  have h3: "list_ex failed (filter is_data (new_calls empty_sink
      (sink_after (emit_sample bpf_target failing_write vec_flush))))"
    by (simp add: emit_sample_write_fails new_calls_def empty_sink_def is_data_def failed_def)
  have h4: "list_ex failed (filter is_data (new_calls empty_sink
      (o_sink_after (bitcode_sample failing_write vec_flush))))"
    by (simp add: bitcode_sample_write_fails new_calls_def empty_sink_def is_data_def
        failed_def)
  have h5: "list_ex failed (filter is_data (new_calls empty_sink
      (o_sink_after (print_ir_sample failing_write vec_flush))))"
    by (simp add: print_ir_sample_write_fails new_calls_def empty_sink_def is_data_def
        failed_def)
  have s: "seek_cb_p write_failing_stream = Some vec_seek"
    "had_error_p write_failing_stream = False"
    by (simp_all add: write_failing_stream_def RustPwriteStream_def)
  from inst h1 h2 h3 h4 h5 show ?thesis
    by (simp add: s vec_seek_def)
qed

section \<open>The data layout of the module\<close>







section \<open>The error message\<close>

lemma emit_message_cases:
  fixes w :: "('p, 'u) sink" and T :: "('p, 'c) TargetMachine option"
  shows "\<exists>m. message_after (bpf_linker_emit_to_pwrite_stream malloc_ok T M codegen write_cb
            pwrite_cb seek_cb flush_cb w error_message) = assign_message error_message m \<and>
          (ret (bpf_linker_emit_to_pwrite_stream malloc_ok T M codegen write_cb pwrite_cb
             seek_cb flush_cb w error_message) = 0 \<and> m = None \<or>
           ret (bpf_linker_emit_to_pwrite_stream malloc_ok T M codegen write_cb pwrite_cb
             seek_cb flush_cb w error_message) = 1 \<and>
           m \<in> dup_cstr malloc_ok `
             {Some ''invalid arguments: TM/Mod/write_cb/pwrite_cb must be non-null'',
              Some ''TargetMachine can't emit a file of this type'',
              Some ''error while writing to Rust pwrite stream''})"
proof (cases "T = None \<or> M = None \<or> write_cb = None \<or> pwrite_cb = None")
  case True
  show ?thesis
    unfolding emit_invalid [OF True]
    by (rule exI [of _ "dup_cstr malloc_ok
          (Some ''invalid arguments: TM/Mod/write_cb/pwrite_cb must be non-null'')"]) simp
next
  case False
  then obtain TM Mod wcb pwcb where args:
    "T = Some TM" "M = Some Mod" "write_cb = Some wcb" "pwrite_cb = Some pwcb" by auto
  obtain cannot_emit pass os1 w1 where run1:
    "run_pwrite_client
       (addPassesToEmitFile TM
          (case codegen of LLVMAssemblyFile \<Rightarrow> AssemblyFile | _ \<Rightarrow> ObjectFile))
       (RustPwriteStream (Some wcb) (Some pwcb) seek_cb flush_cb) w =
     ((cannot_emit, pass), os1, w1)"
    by (metis prod.exhaust)
  obtain Mod2 os2 w2 where run2:
    "run_pwrite_client (pass (setDataLayout (createDataLayout TM) Mod)) os1 w1 = (Mod2, os2, w2)"
    by (metis prod.exhaust)
  show ?thesis
  proof (cases cannot_emit)
    case True
    show ?thesis
      unfolding args emit_valid [OF run1 run2]
      using True
      by (intro exI [of _ "dup_cstr malloc_ok
            (Some ''TargetMachine can't emit a file of this type'')"]) simp
  next
    case False
    show ?thesis
    proof (cases "had_error_p os2")
      case True
      show ?thesis
        unfolding args emit_valid [OF run1 run2]
        using True \<open>\<not> cannot_emit\<close>
        by (intro exI [of _ "dup_cstr malloc_ok
              (Some ''error while writing to Rust pwrite stream'')"]) simp
    next
      case False
      show ?thesis
        unfolding args emit_valid [OF run1 run2]
        using False \<open>\<not> cannot_emit\<close>
        by (intro exI [of _ None]) simp
    qed
  qed
qed

lemma dup_cstr_image_gen:
  assumes "m \<in> dup_cstr ok ` S" and "None \<notin> S"
  shows "(m \<noteq> None \<longrightarrow> ok) \<and> (ok \<longrightarrow> m \<noteq> None) \<and> m \<in> insert None S"
  using assms by (cases ok) (auto simp: dup_cstr_def split: option.splits)

lemma assign_message_Some: "assign_message (Some old) m = Some m"
  by (simp add: assign_message_def)

lemma dup_cstr_Some: "dup_cstr malloc_ok (Some str) = (if malloc_ok then Some str else None)"
  by (simp add: dup_cstr_def)

text \<open>
  C10. With a non-null \<open>error_message\<close> pointer, what the caller's variable held before
  the call never shows afterwards: the call leaves in it either null or one of the three
  messages of the function. It is null whenever the call returns 0, and a message is
  present only when the call returns 1 (and then exactly when the allocation of the
  copy succeeded). With a null pointer nothing is stored.
\<close>

theorem error_message_null_on_success:
  fixes w :: "('p, 'u) sink" and T :: "('p, 'c) TargetMachine option"
  shows
  "message_after (bpf_linker_emit_to_pwrite_stream malloc_ok T M codegen write_cb pwrite_cb
      seek_cb flush_cb w (Some old)) =
   message_after (bpf_linker_emit_to_pwrite_stream malloc_ok T M codegen write_cb pwrite_cb
      seek_cb flush_cb w (Some None)) \<and>
   (case message_after (bpf_linker_emit_to_pwrite_stream malloc_ok T M codegen write_cb
       pwrite_cb seek_cb flush_cb w (Some old)) of
      None \<Rightarrow> False
    | Some m \<Rightarrow>
        (ret (bpf_linker_emit_to_pwrite_stream malloc_ok T M codegen write_cb pwrite_cb
           seek_cb flush_cb w (Some old)) = 0 \<longrightarrow> m = None) \<and>
        (m \<noteq> None \<longrightarrow>
           ret (bpf_linker_emit_to_pwrite_stream malloc_ok T M codegen write_cb pwrite_cb
             seek_cb flush_cb w (Some old)) = 1 \<and> malloc_ok) \<and>
        (ret (bpf_linker_emit_to_pwrite_stream malloc_ok T M codegen write_cb pwrite_cb
           seek_cb flush_cb w (Some old)) = 1 \<and> malloc_ok \<longrightarrow> m \<noteq> None) \<and>
        m \<in> {None,
             Some ''invalid arguments: TM/Mod/write_cb/pwrite_cb must be non-null'',
             Some ''TargetMachine can't emit a file of this type'',
             Some ''error while writing to Rust pwrite stream''}) \<and>
   message_after (bpf_linker_emit_to_pwrite_stream malloc_ok T M codegen write_cb pwrite_cb
      seek_cb flush_cb w None) = None"
proof -
  let ?r = "\<lambda>em. bpf_linker_emit_to_pwrite_stream malloc_ok T M codegen write_cb pwrite_cb
      seek_cb flush_cb w em"
  define msgs where "msgs =
    {Some ''invalid arguments: TM/Mod/write_cb/pwrite_cb must be non-null'',
     Some ''TargetMachine can't emit a file of this type'',
     Some ''error while writing to Rust pwrite stream''}"
  obtain m where mc: "message_after (?r (Some old)) = assign_message (Some old) m \<and>
      (ret (?r (Some old)) = 0 \<and> m = None \<or>
       ret (?r (Some old)) = 1 \<and> m \<in> dup_cstr malloc_ok ` msgs)"
    unfolding msgs_def
    using emit_message_cases [of malloc_ok T M codegen write_cb pwrite_cb seek_cb flush_cb w
        "Some old"] by (rule exE)
  have none: "None \<notin> msgs" by (simp add: msgs_def)
  have key: "(ret (?r (Some old)) = 0 \<longrightarrow> m = None) \<and>
      (m \<noteq> None \<longrightarrow> ret (?r (Some old)) = 1 \<and> malloc_ok) \<and>
      (ret (?r (Some old)) = 1 \<and> malloc_ok \<longrightarrow> m \<noteq> None) \<and>
      m \<in> insert None msgs"
  proof (cases "ret (?r (Some old)) = 0 \<and> m = None")
    case True
    then show ?thesis by simp
  next
    case False
    with mc have r1: "ret (?r (Some old)) = 1" and mem: "m \<in> dup_cstr malloc_ok ` msgs"
      by blast+
    from dup_cstr_image_gen [OF mem none] r1 show ?thesis by (cases malloc_ok) simp_all
  qed
  from mc have eq: "message_after (?r (Some old)) = Some m" by (simp add: assign_message_Some)
  have b: "case message_after (?r (Some old)) of
      None \<Rightarrow> False
    | Some m \<Rightarrow>
        (ret (?r (Some old)) = 0 \<longrightarrow> m = None) \<and>
        (m \<noteq> None \<longrightarrow> ret (?r (Some old)) = 1 \<and> malloc_ok) \<and>
        (ret (?r (Some old)) = 1 \<and> malloc_ok \<longrightarrow> m \<noteq> None) \<and>
        m \<in> insert None msgs"
    unfolding eq option.case by (rule key)
  obtain n where "message_after (?r None) = assign_message None n \<and>
      (ret (?r None) = 0 \<and> n = None \<or>
       ret (?r None) = 1 \<and> n \<in> dup_cstr malloc_ok ` msgs)"
    unfolding msgs_def
    using emit_message_cases [of malloc_ok T M codegen write_cb pwrite_cb seek_cb flush_cb w
        None] by (rule exE)
  then have c: "message_after (?r None) = None" by (simp add: assign_message_def)
  have a: "message_after (?r (Some old)) = message_after (?r (Some None))"
    by (simp only: bpf_linker_emit_to_pwrite_stream_def assign_message_Some)
  show ?thesis
    unfolding msgs_def [symmetric]
    using a b c by (intro conjI)
qed

theorem error_message_null_on_success_witness:
  "ret (emit_sample bpf_target vec_write vec_flush) = 0 \<and>
   message_after (emit_sample bpf_target vec_write vec_flush) = Some None \<and>
   ret (emit_sample bpf_target failing_write vec_flush) = 1 \<and>
   message_after (emit_sample bpf_target failing_write vec_flush) \<noteq> Some None \<and>
   message_after (emit_sample bpf_target failing_write vec_flush) \<noteq> None"
proof -
  note good = error_message_null_on_success
    [where malloc_ok = True and T = "Some bpf_target" and M = "Some some_module"
       and codegen = LLVMObjectFile and write_cb = "Some vec_write"
       and pwrite_cb = "Some vec_pwrite" and seek_cb = None and flush_cb = "Some vec_flush"
       and w = empty_sink and old = "Some ''stale''",
     folded emit_sample_def, THEN conjunct2, THEN conjunct1]
  note bad = error_message_null_on_success
    [where malloc_ok = True and T = "Some bpf_target" and M = "Some some_module"
       and codegen = LLVMObjectFile and write_cb = "Some failing_write"
       and pwrite_cb = "Some vec_pwrite" and seek_cb = None and flush_cb = "Some vec_flush"
       and w = empty_sink and old = "Some ''stale''",
     folded emit_sample_def, THEN conjunct2, THEN conjunct1]
  have g: "ret (emit_sample bpf_target vec_write vec_flush) = 0"
    by (simp add: emit_sample_good)
  have b: "ret (emit_sample bpf_target failing_write vec_flush) = 1"
    by (simp add: emit_sample_write_fails)
  from good g have "message_after (emit_sample bpf_target vec_write vec_flush) = Some None"
    by (cases "message_after (emit_sample bpf_target vec_write vec_flush)") simp_all
  moreover from bad b
  have "message_after (emit_sample bpf_target failing_write vec_flush) \<noteq> Some None \<and>
        message_after (emit_sample bpf_target failing_write vec_flush) \<noteq> None"
    by (cases "message_after (emit_sample bpf_target failing_write vec_flush)") auto
  ultimately show ?thesis using g b by simp
qed

end
